theory Spec2Isabelle
  imports Complex_Main
begin

section \<open>Numbers, templates and the random source\<close>

text \<open>
  The program computes with IEEE doubles and stores coordinates in a \<^verbatim>\<open>Float32Array\<close>.
  The embedding idealises every number as a \<^typ>\<open>real\<close>: rounding is left out, so an
  equation proved here holds in the program up to floating-point rounding. The two
  comparisons against index fractions (\<^verbatim>\<open>i < count * 0.6\<close>, \<^verbatim>\<open>segment < 0.3\<close>)
  are over exact rationals here.

  \<^verbatim>\<open>TemplateType\<close> is a union of string literals, and at run time the argument of
  \<^verbatim>\<open>generatePositions\<close> is a string that the \<^verbatim>\<open>switch\<close> compares with five literals.

  \<^verbatim>\<open>Math.random()\<close> is modelled by a stream of draws and a counter of the draws already
  taken: a call returns the next draw and advances the counter.
\<close>

type_synonym TemplateType = string

type_synonym random_source = "nat \<Rightarrow> real"

definition Math_random :: "random_source \<Rightarrow> nat \<Rightarrow> real \<times> nat" where
  "Math_random rnd k = (rnd k, Suc k)"

text \<open>Every draw of \<^verbatim>\<open>Math.random()\<close> is in the half-open interval from 0 to 1.\<close>

definition unit_draws :: "random_source \<Rightarrow> bool" where
  "unit_draws rnd \<longleftrightarrow> (\<forall>k. 0 \<le> rnd k \<and> rnd k < 1)"

section \<open>The shape generator (src/utils/math.ts)\<close>

subsection \<open>HEART\<close>

definition heart :: "random_source \<Rightarrow> nat \<Rightarrow> (real \<times> real \<times> real) \<times> nat" where
  "heart rnd k =
     (case Math_random rnd k of (u1, k1) \<Rightarrow>
      let angle = u1 * pi * 2;
          scale = 0.5;
          x = 16 * sin angle ^ 3;
          y = 13 * cos angle - 5 * cos (2 * angle) - 2 * cos (3 * angle) - cos (4 * angle)
      in case Math_random rnd k1 of (u2, k2) \<Rightarrow>
         let z = (u2 - 0.5) * 5
         in ((x * scale, y * scale, z), k2))"

subsection \<open>FLOWER\<close>

definition flower_radius :: "nat \<Rightarrow> nat \<Rightarrow> real" where
  "flower_radius count i = 15 * sqrt (real i / real count)"

definition flower_angle :: "nat \<Rightarrow> real" where
  "flower_angle i = real i * 137.5 * (pi / 180)"

definition flower :: "nat \<Rightarrow> nat \<Rightarrow> real \<times> real \<times> real" where
  "flower count i =
     (let radius = flower_radius count i;
          angle = flower_angle i;
          x = radius * cos angle;
          y = radius * sin angle;
          z = sin (radius * 0.5) * 2
      in (x, y, z))"

subsection \<open>SATURN\<close>

datatype saturn_branch = Sphere | Ring

definition saturn_route :: "nat \<Rightarrow> nat \<Rightarrow> saturn_branch" where
  "saturn_route count i = (if real i < real count * 0.6 then Sphere else Ring)"

definition saturn_sphere :: "real \<Rightarrow> real \<Rightarrow> real \<times> real \<times> real" where
  "saturn_sphere phi theta =
     (let r = 10;
          x = r * sin phi * cos theta;
          y = r * sin phi * sin theta;
          z = r * cos phi
      in (x, y, z))"

definition saturn_ring :: "random_source \<Rightarrow> nat \<Rightarrow> (real \<times> real \<times> real) \<times> nat" where
  "saturn_ring rnd k =
     (let inner = 14; outer = 22
      in case Math_random rnd k of (u1, k1) \<Rightarrow>
         let r = inner + (outer - inner) * u1
         in case Math_random rnd k1 of (u2, k2) \<Rightarrow>
            let angle = u2 * pi * 2;
                x = r * cos angle
            in case Math_random rnd k2 of (u3, k3) \<Rightarrow>
               let y = (u3 - 0.5) * 0.5;
                   z = r * sin angle
               in ((x, y, z), k3))"

definition saturn ::
  "nat \<Rightarrow> nat \<Rightarrow> real \<Rightarrow> real \<Rightarrow> random_source \<Rightarrow> nat \<Rightarrow> (real \<times> real \<times> real) \<times> nat" where
  "saturn count i phi theta rnd k =
     (case saturn_route count i of
        Sphere \<Rightarrow> (saturn_sphere phi theta, k)
      | Ring \<Rightarrow> saturn_ring rnd k)"

subsection \<open>BUDDHA\<close>

datatype buddha_branch = HeadTorso | CrossedLegs | Aura

definition buddha_route :: "nat \<Rightarrow> nat \<Rightarrow> buddha_branch" where
  "buddha_route count i =
     (let segment = real i / real count
      in if segment < 0.3 then HeadTorso
         else if segment < 0.7 then CrossedLegs
         else Aura)"

definition buddha_head_torso ::
  "real \<Rightarrow> random_source \<Rightarrow> nat \<Rightarrow> (real \<times> real \<times> real) \<times> nat" where
  "buddha_head_torso segment rnd k =
     (case Math_random rnd k of (u1, k1) \<Rightarrow>
      let x = (u1 - 0.5) * 6;
          y = segment * 20 - 5
      in case Math_random rnd k1 of (u2, k2) \<Rightarrow>
         let z = (u2 - 0.5) * 4
         in ((x, y, z), k2))"

definition buddha_crossed_legs ::
  "real \<Rightarrow> random_source \<Rightarrow> nat \<Rightarrow> (real \<times> real \<times> real) \<times> nat" where
  "buddha_crossed_legs segment rnd k =
     (let legT = (segment - 0.3) * 10;
          x = sin legT * 12
      in case Math_random rnd k of (u1, k1) \<Rightarrow>
         let y = - 10 + u1 * 2;
             z = cos legT * 8
         in ((x, y, z), k1))"

definition buddha_aura :: "random_source \<Rightarrow> nat \<Rightarrow> (real \<times> real \<times> real) \<times> nat" where
  "buddha_aura rnd k =
     (case Math_random rnd k of (u1, k1) \<Rightarrow>
      let r = 15 + u1 * 5
      in case Math_random rnd k1 of (u2, k2) \<Rightarrow>
         let a = u2 * pi;
             x = r * cos a;
             y = r * sin a - 5;
             z = - 5
         in ((x, y, z), k2))"

definition buddha :: "nat \<Rightarrow> nat \<Rightarrow> random_source \<Rightarrow> nat \<Rightarrow> (real \<times> real \<times> real) \<times> nat" where
  "buddha count i rnd k =
     (let segment = real i / real count
      in case buddha_route count i of
           HeadTorso \<Rightarrow> buddha_head_torso segment rnd k
         | CrossedLegs \<Rightarrow> buddha_crossed_legs segment rnd k
         | Aura \<Rightarrow> buddha_aura rnd k)"

subsection \<open>FIREWORKS\<close>

definition fireworks ::
  "real \<Rightarrow> real \<Rightarrow> random_source \<Rightarrow> nat \<Rightarrow> (real \<times> real \<times> real) \<times> nat" where
  "fireworks phi theta rnd k =
     (case Math_random rnd k of (u1, k1) \<Rightarrow>
      let r = (u1 powr 0.5) * 20;
          x = r * sin phi * cos theta;
          y = r * sin phi * sin theta;
          z = r * cos phi
      in ((x, y, z), k1))"

subsection \<open>One iteration of the loop, and the loop\<close>

text \<open>
  The body of the \<^verbatim>\<open>for\<close> loop up to the \<^verbatim>\<open>switch\<close>: the coordinates start at zero,
  and a template that matches no \<^verbatim>\<open>case\<close> leaves them there (the \<^verbatim>\<open>switch\<close> has no
  default). The result is the point and the counter of draws taken so far.
\<close>

definition shape_point ::
  "TemplateType \<Rightarrow> nat \<Rightarrow> random_source \<Rightarrow> nat \<Rightarrow> nat \<Rightarrow> (real \<times> real \<times> real) \<times> nat" where
  "shape_point type count rnd i k =
     (let t = (real i / real count) * pi * 2;
          phi = arccos (- 1 + (2 * real i) / real count);
          theta = sqrt (real count * pi) * phi
      in if type = ''HEART'' then heart rnd k
         else if type = ''FLOWER'' then (flower count i, k)
         else if type = ''SATURN'' then saturn count i phi theta rnd k
         else if type = ''BUDDHA'' then buddha count i rnd k
         else if type = ''FIREWORKS'' then fireworks phi theta rnd k
         else ((0, 0, 0), k))"

text \<open>
  The loop writes the three coordinates of point \<open>i\<close> into slots \<open>3i\<close>, \<open>3i + 1\<close>,
  \<open>3i + 2\<close>. A write past the end of a typed array is ignored, as \<open>xs[j := v]\<close> is.
\<close>

function generate_loop ::
  "TemplateType \<Rightarrow> nat \<Rightarrow> random_source \<Rightarrow> nat \<Rightarrow> nat \<Rightarrow> real list \<Rightarrow> real list" where
  "generate_loop type count rnd i k positions =
     (if i < count then
        (case shape_point type count rnd i k of
           ((x, y, z), k') \<Rightarrow>
             generate_loop type count rnd (Suc i) k'
               (positions[i * 3 := x, i * 3 + 1 := y, i * 3 + 2 := z]))
      else positions)"
  by pat_completeness auto
termination
  by (relation "measure (\<lambda>(type, count, rnd, i, k, positions). count - i)") auto

declare generate_loop.simps [simp del]

definition generatePositions :: "TemplateType \<Rightarrow> nat \<Rightarrow> random_source \<Rightarrow> real list" where
  "generatePositions type count rnd =
     generate_loop type count rnd 0 0 (replicate (count * 3) 0)"

text \<open>The three slots of point \<open>i\<close> in a flat buffer.\<close>

definition point_at :: "real list \<Rightarrow> nat \<Rightarrow> real \<times> real \<times> real" where
  "point_at buf i = (buf ! (i * 3), buf ! (i * 3 + 1), buf ! (i * 3 + 2))"

text \<open>The number of draws taken before iteration \<open>i\<close> of the loop.\<close>

fun draws_before :: "TemplateType \<Rightarrow> nat \<Rightarrow> random_source \<Rightarrow> nat \<Rightarrow> nat" where
  "draws_before type count rnd 0 = 0"
| "draws_before type count rnd (Suc i) =
     snd (shape_point type count rnd i (draws_before type count rnd i))"

text \<open>The indices below \<open>count\<close> that the generator routes to a given branch.\<close>

definition saturn_indices :: "nat \<Rightarrow> saturn_branch \<Rightarrow> nat set" where
  "saturn_indices count b = {i. i < count \<and> saturn_route count i = b}"

definition buddha_indices :: "nat \<Rightarrow> buddha_branch \<Rightarrow> nat set" where
  "buddha_indices count b = {i. i < count \<and> buddha_route count i = b}"


section \<open>The per-frame step (ParticleSystem, the useFrame callback)\<close>

text \<open>
  The loop body, in two slices: the reads of the target and the three easing assignments
  (lines 45 to 54), then the two jitter assignments (lines 57 and 58). A typed array
  ignores a write past its end, as \<open>xs[j := v]\<close> does.
\<close>

definition ease_point :: "real list \<Rightarrow> nat \<Rightarrow> real list \<Rightarrow> real list" where
  "ease_point targetPositions i positions =
     (let i3 = i * 3;
          tx = targetPositions ! i3;
          ty = targetPositions ! (i3 + 1);
          tz = targetPositions ! (i3 + 2);
          positions = positions[i3 := positions ! i3 + (tx - positions ! i3) * 0.1];
          positions = positions[i3 + 1 := positions ! (i3 + 1) + (ty - positions ! (i3 + 1)) * 0.1];
          positions = positions[i3 + 2 := positions ! (i3 + 2) + (tz - positions ! (i3 + 2)) * 0.1]
      in positions)"

definition jitter_point :: "real \<Rightarrow> nat \<Rightarrow> real list \<Rightarrow> real list" where
  "jitter_point time i positions =
     (let i3 = i * 3;
          positions = positions[i3 := positions ! i3 + sin (time + real i) * 0.02];
          positions = positions[i3 + 1 := positions ! (i3 + 1) + cos (time + real i) * 0.02]
      in positions)"

definition morph_point :: "real list \<Rightarrow> real \<Rightarrow> nat \<Rightarrow> real list \<Rightarrow> real list" where
  "morph_point targetPositions time i positions =
     jitter_point time i (ease_point targetPositions i positions)"

text \<open>The loop \<^verbatim>\<open>for (let i = 0; i < count; i++)\<close> over a body that updates the buffer.\<close>

function for_points ::
  "(nat \<Rightarrow> real list \<Rightarrow> real list) \<Rightarrow> nat \<Rightarrow> nat \<Rightarrow> real list \<Rightarrow> real list" where
  "for_points body count i positions =
     (if i < count then for_points body count (Suc i) (body i positions) else positions)"
  by pat_completeness auto
termination
  by (relation "measure (\<lambda>(body, count, i, positions). count - i)") auto

declare for_points.simps [simp del]

text \<open>
  The easing slice alone, run over all points: the pass of the step with the jitter held
  aside, which the convergence property is about.
\<close>

definition ease_pass :: "nat \<Rightarrow> real list \<Rightarrow> real list \<Rightarrow> real list" where
  "ease_pass count targetPositions positions =
     for_points (ease_point targetPositions) count 0 positions"

record GestureState =
  expansion :: real
  rotation :: real
  isDetected :: bool

text \<open>
  The rendered object behind \<^verbatim>\<open>pointsRef.current\<close>, with the parts the callback touches:
  the array and the \<^verbatim>\<open>needsUpdate\<close> flag of \<^verbatim>\<open>geometry.attributes.position\<close>, the three
  components of \<^verbatim>\<open>scale\<close> and the three angles of \<^verbatim>\<open>rotation\<close>.
\<close>

record Points =
  positions :: "real list"
  needsUpdate :: bool
  scale_x :: real
  scale_y :: real
  scale_z :: real
  rotation_x :: real
  rotation_y :: real
  rotation_z :: real

text \<open>\<^verbatim>\<open>Vector3.setScalar\<close> of the rendering library sets all three components.\<close>

definition setScalar :: "real \<Rightarrow> Points \<Rightarrow> Points" where
  "setScalar s pts = pts\<lparr>scale_x := s, scale_y := s, scale_z := s\<rparr>"

text \<open>
  The callback after its guard (lines 40 to 67): the loop over the points, the flag, then
  the transform of the whole object. \<open>count\<close> is the component's constant (15000 in the
  source), which also fixes the length \<open>3 * count\<close> of both buffers.
\<close>

definition step :: "nat \<Rightarrow> real list \<Rightarrow> GestureState \<Rightarrow> real \<Rightarrow> Points \<Rightarrow> Points" where
  "step count targetPositions gesture time pts =
     (let pts = pts\<lparr>positions :=
                  for_points (morph_point targetPositions time) count 0 (positions pts)\<rparr>;
          pts = pts\<lparr>needsUpdate := True\<rparr>;
          pts = setScalar (1 + expansion gesture * 2.5) pts;
          pts = pts\<lparr>rotation_y := rotation_y pts + (0.002 + rotation gesture * 0.05)\<rparr>;
          pts = pts\<lparr>rotation_z := rotation_z pts + 0.001\<rparr>
      in pts)"

text \<open>
  What the callback closes over: the ref to the rendered object (null until it is
  mounted), the target buffer and the gesture prop.
\<close>

record ParticleSystem =
  pointsRef :: "Points option"
  targetPositions :: "real list"
  gesture :: GestureState

definition useFrame_callback :: "nat \<Rightarrow> real \<Rightarrow> ParticleSystem \<Rightarrow> ParticleSystem" where
  "useFrame_callback count time c =
     (case pointsRef c of
        None \<Rightarrow> c
      | Some pts \<Rightarrow> c\<lparr>pointsRef := Some (step count (targetPositions c) (gesture c) time pts)\<rparr>)"

text \<open>The Euclidean distance between two points.\<close>

definition distance :: "real \<times> real \<times> real \<Rightarrow> real \<times> real \<times> real \<Rightarrow> real" where
  "distance p q =
     (case p of (px, py, pz) \<Rightarrow> case q of (qx, qy, qz) \<Rightarrow>
        sqrt ((px - qx)\<^sup>2 + (py - qy)\<^sup>2 + (pz - qz)\<^sup>2))"

section \<open>The application state (src/App.tsx)\<close>

text \<open>
  The gesture state starts at the value given to \<^verbatim>\<open>useState\<close> (line 28) and is replaced
  by \<^verbatim>\<open>setGesture\<close> when the gesture service reports (lines 52 to 54); the particle system
  reads it as a prop (line 76). Selecting a template regenerates the shape, which is
  copied into the target buffer (ParticleSystem, lines 25 and 33 to 35).
\<close>

definition initial_gesture :: GestureState where
  "initial_gesture = \<lparr>expansion = 0, rotation = 0, isDetected = False\<rparr>"

datatype event =
    Frame real
  | GestureReport GestureState
  | SelectTemplate TemplateType random_source

fun is_report :: "event \<Rightarrow> bool" where
  "is_report (GestureReport g) = True"
| "is_report e = False"

fun is_frame :: "event \<Rightarrow> bool" where
  "is_frame (Frame time) = True"
| "is_frame e = False"

fun handle :: "nat \<Rightarrow> event \<Rightarrow> ParticleSystem \<Rightarrow> ParticleSystem" where
  "handle count (Frame time) c = useFrame_callback count time c"
| "handle count (GestureReport g) c = c\<lparr>gesture := g\<rparr>"
| "handle count (SelectTemplate type rnd) c =
     c\<lparr>targetPositions := generatePositions type count rnd\<rparr>"

fun run :: "nat \<Rightarrow> event list \<Rightarrow> ParticleSystem \<Rightarrow> ParticleSystem" where
  "run count [] c = c"
| "run count (e # es) c = run count es (handle count e c)"

text \<open>
  The jitter the loop body adds to slot \<open>j\<close> (lines 57 and 58): a sine on the first slot
  of a point, a cosine on the second, nothing on the third; the phase is the point's index.
\<close>

definition jitter :: "real \<Rightarrow> nat \<Rightarrow> real" where
  "jitter time j =
     (if j mod 3 = 0 then sin (time + real (j div 3)) * 0.02
      else if j mod 3 = 1 then cos (time + real (j div 3)) * 0.02
      else 0)"


section \<open>The generator's loop\<close>

lemma generate_loop_length:
  "length (generate_loop type count rnd i k P) = length P"
proof (induction type count rnd i k P rule: generate_loop.induct)
  case (1 type count rnd i k P)
  show ?case
  proof (cases "i < count")
    case True
    obtain x y z k' where sp: "shape_point type count rnd i k = ((x, y, z), k')"
      by (metis prod_cases3 surj_pair)
    from "1.IH" [OF True sp [symmetric] refl refl] True sp show ?thesis
      by (subst generate_loop.simps) simp
  next
    case False
    then show ?thesis by (subst generate_loop.simps) simp
  qed
qed

lemma generate_loop_below:
  "j < i * 3 \<Longrightarrow> generate_loop type count rnd i k P ! j = P ! j"
proof (induction type count rnd i k P rule: generate_loop.induct)
  case (1 type count rnd i k P)
  show ?case
  proof (cases "i < count")
    case True
    obtain x y z k' where sp: "shape_point type count rnd i k = ((x, y, z), k')"
      by (metis prod_cases3 surj_pair)
    have "j < Suc i * 3" using "1.prems" by simp
    from "1.IH" [OF True sp [symmetric] refl refl this] True sp "1.prems" show ?thesis
      by (subst generate_loop.simps) simp
  next
    case False
    then show ?thesis by (subst generate_loop.simps) simp
  qed
qed

lemma generate_loop_point:
  "i \<le> j \<Longrightarrow> j < count \<Longrightarrow> count * 3 \<le> length P \<Longrightarrow>
   k = draws_before type count rnd i \<Longrightarrow>
   point_at (generate_loop type count rnd i k P) j =
     fst (shape_point type count rnd j (draws_before type count rnd j))"
proof (induction type count rnd i k P rule: generate_loop.induct)
  case (1 type count rnd i k P)
  have lt: "i < count" using "1.prems" by simp
  obtain x y z k' where sp: "shape_point type count rnd i k = ((x, y, z), k')"
    by (metis prod_cases3 surj_pair)
  let ?Q = "P[i * 3 := x, i * 3 + 1 := y, i * 3 + 2 := z]"
  have unfold: "generate_loop type count rnd i k P =
      generate_loop type count rnd (Suc i) k' ?Q"
    using lt sp by (subst generate_loop.simps) simp
  have k': "k' = draws_before type count rnd (Suc i)"
    using sp "1.prems"(4) by simp
  show ?case
  proof (cases "j = i")
    case True
    have len: "i * 3 + 2 < length P" using lt "1.prems"(3) by simp
    have "point_at (generate_loop type count rnd (Suc i) k' ?Q) i = point_at ?Q i"
      by (simp add: point_at_def generate_loop_below)
    also have "\<dots> = (x, y, z)" using len by (simp add: point_at_def)
    finally show ?thesis using True unfold sp "1.prems"(4) by simp
  next
    case False
    then have "Suc i \<le> j" using "1.prems"(1) by simp
    from "1.IH" [OF lt sp [symmetric] refl refl this "1.prems"(2) _ k'] "1.prems"(3) unfold
    show ?thesis by simp
  qed
qed

lemma generatePositions_point:
  "i < count \<Longrightarrow>
   point_at (generatePositions type count rnd) i =
     fst (shape_point type count rnd i (draws_before type count rnd i))"
  unfolding generatePositions_def
  by (rule generate_loop_point) simp_all

lemma generatePositions_length:
  "length (generatePositions type count rnd) = 3 * count"
  by (simp add: generatePositions_def generate_loop_length)

section \<open>The branches of the generator\<close>

lemma shape_point_saturn_sphere:
  "real i < real count * 0.6 \<Longrightarrow>
   shape_point ''SATURN'' count rnd i k =
     (saturn_sphere (arccos (- 1 + (2 * real i) / real count))
        (sqrt (real count * pi) * arccos (- 1 + (2 * real i) / real count)), k)"
  by (simp add: shape_point_def saturn_def saturn_route_def Let_def)

lemma shape_point_saturn_ring:
  "\<not> real i < real count * 0.6 \<Longrightarrow>
   shape_point ''SATURN'' count rnd i k = saturn_ring rnd k"
  by (simp add: shape_point_def saturn_def saturn_route_def Let_def)

lemma saturn_sphere_on_sphere:
  "saturn_sphere phi theta = (x, y, z) \<Longrightarrow> x\<^sup>2 + y\<^sup>2 + z\<^sup>2 = 100"
proof -
  assume "saturn_sphere phi theta = (x, y, z)"
  then have x: "x = 10 * sin phi * cos theta" and y: "y = 10 * sin phi * sin theta"
    and z: "z = 10 * cos phi"
    by (simp_all add: saturn_sphere_def Let_def)
  have "x\<^sup>2 + y\<^sup>2 = 100 * (sin phi)\<^sup>2 * ((cos theta)\<^sup>2 + (sin theta)\<^sup>2)"
    unfolding x y by (simp only: power_mult_distrib distrib_left) simp
  then have "x\<^sup>2 + y\<^sup>2 = 100 * (sin phi)\<^sup>2" by simp
  moreover have "z\<^sup>2 = 100 * (cos phi)\<^sup>2"
    unfolding z by (simp add: power_mult_distrib)
  ultimately have "x\<^sup>2 + y\<^sup>2 + z\<^sup>2 = 100 * (sin phi)\<^sup>2 + 100 * (cos phi)\<^sup>2"
    by simp
  also have "\<dots> = 100 * ((sin phi)\<^sup>2 + (cos phi)\<^sup>2)"
    by (simp only: distrib_left)
  also have "\<dots> = 100" by simp
  finally show ?thesis .
qed

lemma saturn_ring_bounds:
  assumes "unit_draws rnd" and "saturn_ring rnd k = ((x, y, z), k')"
  shows "14 \<le> sqrt (x\<^sup>2 + z\<^sup>2)" "sqrt (x\<^sup>2 + z\<^sup>2) < 22" "- 0.25 \<le> y" "y < 0.25"
    "k' = k + 3"
proof -
  let ?r = "14 + (22 - 14) * rnd k"
  let ?a = "rnd (Suc k) * pi * 2"
  from assms(2) have x: "x = ?r * cos ?a" and z: "z = ?r * sin ?a"
    and y: "y = (rnd (Suc (Suc k)) - 0.5) * 0.5" and k': "k' = k + 3"
    by (simp_all add: saturn_ring_def Let_def Math_random_def)
  from assms(1) have u: "0 \<le> rnd k" "rnd k < 1" "0 \<le> rnd (Suc (Suc k))" "rnd (Suc (Suc k)) < 1"
    by (simp_all add: unit_draws_def)
  have r: "14 \<le> ?r" "?r < 22" using u by simp_all
  have "x\<^sup>2 + z\<^sup>2 = ?r\<^sup>2 * ((cos ?a)\<^sup>2 + (sin ?a)\<^sup>2)"
    unfolding x z by (simp only: power_mult_distrib distrib_left)
  also have "\<dots> = ?r\<^sup>2" by (simp only: sin_cos_squared_add2 mult_1_right)
  finally have "sqrt (x\<^sup>2 + z\<^sup>2) = ?r" using r by simp
  then show "14 \<le> sqrt (x\<^sup>2 + z\<^sup>2)" "sqrt (x\<^sup>2 + z\<^sup>2) < 22" using r by simp_all
  show "- 0.25 \<le> y" "y < 0.25" using u y by simp_all
  show "k' = k + 3" by (rule k')
qed

lemma replicate_update_same: "(replicate n x)[j := x] = replicate n x"
  by (induction n arbitrary: j) (simp_all split: nat.split)

lemma shape_point_unknown:
  "type \<notin> {''HEART'', ''FLOWER'', ''SATURN'', ''BUDDHA'', ''FIREWORKS''} \<Longrightarrow>
   shape_point type count rnd i k = ((0, 0, 0), k)"
  by (simp add: shape_point_def Let_def)

lemma generate_loop_unknown:
  "type \<notin> {''HEART'', ''FLOWER'', ''SATURN'', ''BUDDHA'', ''FIREWORKS''} \<Longrightarrow>
   generate_loop type count rnd i k (replicate n 0) = replicate n 0"
proof (induction type count rnd i k "replicate n (0::real)" rule: generate_loop.induct)
  case (1 type count rnd i k)
  show ?case
  proof (cases "i < count")
    case True
    have sp: "((0, 0, 0), k) = shape_point type count rnd i k"
      using shape_point_unknown [OF "1.prems"] by simp
    have same: "(replicate n (0::real))[i * 3 := 0, i * 3 + 1 := 0, i * 3 + 2 := 0] = replicate n 0"
      by (simp only: replicate_update_same)
    from "1.hyps" [OF True sp refl refl same "1.prems"] True sp [symmetric] same
    show ?thesis by (subst generate_loop.simps) simp
  next
    case False
    then show ?thesis by (subst generate_loop.simps) simp
  qed
qed


section \<open>The loop of the step\<close>

lemma ease_point_length: "length (ease_point T i P) = length P"
  by (simp add: ease_point_def Let_def)

lemma jitter_point_length: "length (jitter_point time i P) = length P"
  by (simp add: jitter_point_def Let_def)

lemma morph_point_length: "length (morph_point T time i P) = length P"
  by (simp add: morph_point_def ease_point_length jitter_point_length)

lemma slot_cases:
  "j div 3 = i \<longleftrightarrow> j = i * 3 \<or> j = i * 3 + 1 \<or> j = i * 3 + 2" for i j :: nat
  by presburger

lemma ease_point_nth:
  "j < length P \<Longrightarrow>
   ease_point T i P ! j =
     (if j div 3 = i then P ! j + (T ! j - P ! j) * 0.1 else P ! j)"
  by (auto simp: ease_point_def Let_def nth_list_update slot_cases)

lemma slot_div_mod:
  "(i * 3) div 3 = i" "(i * 3) mod 3 = 0"
  "(i * 3 + 1) div 3 = i" "(i * 3 + 1) mod 3 = 1"
  "(i * 3 + 2) div 3 = i" "(i * 3 + 2) mod 3 = 2"
  "Suc (i * 3) div 3 = i" "Suc (i * 3) mod 3 = 1"
  "Suc (Suc (i * 3)) div 3 = i" "Suc (Suc (i * 3)) mod 3 = 2" for i :: nat
  by presburger+

lemma jitter_point_nth:
  assumes "j < length P"
  shows "jitter_point time i P ! j = (if j div 3 = i then P ! j + jitter time j else P ! j)"
proof -
  consider "j = i * 3" | "j = i * 3 + 1" | "j = i * 3 + 2" | "j div 3 \<noteq> i"
    using slot_cases by blast
  then show ?thesis
  proof cases
    case 1
    with assms show ?thesis
      by (simp add: jitter_point_def Let_def jitter_def slot_div_mod)
  next
    case 2
    with assms show ?thesis
      by (simp add: jitter_point_def Let_def jitter_def slot_div_mod)
  next
    case 3
    with assms show ?thesis
      by (simp add: jitter_point_def Let_def jitter_def slot_div_mod)
  next
    case 4
    then have "j \<noteq> i * 3" "j \<noteq> i * 3 + 1" using slot_cases by blast+
    with 4 assms show ?thesis
      by (simp add: jitter_point_def Let_def)
  qed
qed

lemma morph_point_nth:
  "j < length P \<Longrightarrow>
   morph_point T time i P ! j =
     (if j div 3 = i then P ! j + (T ! j - P ! j) * 0.1 + jitter time j else P ! j)"
  by (simp add: morph_point_def jitter_point_nth ease_point_nth ease_point_length)

lemma for_points_length:
  assumes "\<And>i P. length (body i P) = length P"
  shows "length (for_points body count i P) = length P"
  using assms
proof (induction body count i P rule: for_points.induct)
  case (1 body count i P)
  then show ?case
    by (subst for_points.simps) simp
qed

lemma for_points_nth:
  assumes "\<And>i P. length (body i P) = length P"
    and "\<And>i P j. j < length P \<Longrightarrow>
           body i P ! j = (if j div 3 = i then f j (P ! j) else P ! j)"
    and "j < length P"
  shows "for_points body count i P ! j =
           (if i \<le> j div 3 \<and> j div 3 < count then f j (P ! j) else P ! j)"
  using assms
proof (induction body count i P rule: for_points.induct)
  case (1 body count i P)
  show ?case
  proof (cases "i < count")
    case True
    have len: "j < length (body i P)" using "1.prems"(1,3) by simp
    have "for_points body count i P ! j = for_points body count (Suc i) (body i P) ! j"
      using True by (subst for_points.simps) simp
    also have "\<dots> = (if Suc i \<le> j div 3 \<and> j div 3 < count then f j (body i P ! j)
                       else body i P ! j)"
      using "1.IH" [OF True "1.prems"(1,2) len] by simp
    also have "\<dots> = (if i \<le> j div 3 \<and> j div 3 < count then f j (P ! j) else P ! j)"
      using True "1.prems"(2) [OF "1.prems"(3), of i] by auto
    finally show ?thesis .
  next
    case False
    then show ?thesis by (subst for_points.simps) simp
  qed
qed

lemma morph_loop_nth:
  "j < length P \<Longrightarrow>
   for_points (morph_point T time) count 0 P ! j =
     (if j div 3 < count then P ! j + (T ! j - P ! j) * 0.1 + jitter time j else P ! j)"
  using for_points_nth [where body = "morph_point T time"
      and f = "\<lambda>j x. x + (T ! j - x) * 0.1 + jitter time j" and i = 0 and count = count and P = P and j = j]
  by (simp add: morph_point_length morph_point_nth)

lemma ease_pass_nth:
  "j < length P \<Longrightarrow>
   ease_pass count T P ! j =
     (if j div 3 < count then P ! j + (T ! j - P ! j) * 0.1 else P ! j)"
  unfolding ease_pass_def
  using for_points_nth [where body = "ease_point T"
      and f = "\<lambda>j x. x + (T ! j - x) * 0.1" and i = 0 and count = count and P = P and j = j]
  by (simp add: ease_point_length ease_point_nth)

lemma ease_pass_length: "length (ease_pass count T P) = length P"
  by (simp add: ease_pass_def for_points_length ease_point_length)

lemma morph_loop_length: "length (for_points (morph_point T time) count 0 P) = length P"
  by (simp add: for_points_length morph_point_length)

section \<open>Routing of indices to branches\<close>

lemma sphere_cond: "real i < real count * 0.6 \<longleftrightarrow> 5 * i < 3 * count"
proof -
  have "real i < real count * 0.6 \<longleftrightarrow> real (5 * i) < real (3 * count)"
    by (simp add: field_simps)
  then show ?thesis by (simp only: of_nat_less_iff)
qed

lemma head_cond: "real i / real count < 0.3 \<longleftrightarrow> 10 * i < 3 * count" if "0 < count"
proof -
  have "real i / real count < 0.3 \<longleftrightarrow> real (10 * i) < real (3 * count)"
    using that by (simp add: field_simps)
  then show ?thesis by (simp only: of_nat_less_iff)
qed

lemma legs_cond: "real i / real count < 0.7 \<longleftrightarrow> 10 * i < 7 * count" if "0 < count"
proof -
  have "real i / real count < 0.7 \<longleftrightarrow> real (10 * i) < real (7 * count)"
    using that by (simp add: field_simps)
  then show ?thesis by (simp only: of_nat_less_iff)
qed

lemma floor_fraction:
  "\<lfloor>real count * 0.6\<rfloor> = int ((3 * count) div 5)"
  "\<lfloor>real count * 0.4\<rfloor> = int ((2 * count) div 5)"
  "\<lfloor>real count * 0.3\<rfloor> = int ((3 * count) div 10)"
proof -
  have "real count * 0.6 = real (3 * count) / real 5" by simp
  then show "\<lfloor>real count * 0.6\<rfloor> = int ((3 * count) div 5)"
    by (simp only: floor_divide_of_nat_eq)
  have "real count * 0.4 = real (2 * count) / real 5" by simp
  then show "\<lfloor>real count * 0.4\<rfloor> = int ((2 * count) div 5)"
    by (simp only: floor_divide_of_nat_eq)
  have "real count * 0.3 = real (3 * count) / real 10" by simp
  then show "\<lfloor>real count * 0.3\<rfloor> = int ((3 * count) div 10)"
    by (simp only: floor_divide_of_nat_eq)
qed

lemma saturn_route_nat:
  "saturn_route count i = (if 5 * i < 3 * count then Sphere else Ring)"
  by (simp only: saturn_route_def sphere_cond)

lemma buddha_route_nat:
  "0 < count \<Longrightarrow>
   buddha_route count i =
     (if 10 * i < 3 * count then HeadTorso
      else if 10 * i < 7 * count then CrossedLegs
      else Aura)"
  by (simp only: buddha_route_def Let_def head_cond legs_cond)

lemma saturn_sphere_indices:
  "{i. i < count \<and> saturn_route count i = Sphere} = {..<(3 * count + 4) div 5}"
  by (auto simp: saturn_route_nat)

lemma saturn_ring_indices:
  "{i. i < count \<and> saturn_route count i = Ring} = {(3 * count + 4) div 5..<count}"
  by (auto simp: saturn_route_nat)

lemma buddha_head_indices:
  "0 < count \<Longrightarrow>
   {i. i < count \<and> buddha_route count i = HeadTorso} = {..<(3 * count + 9) div 10}"
  by (auto simp: buddha_route_nat)

lemma buddha_legs_indices:
  "0 < count \<Longrightarrow>
   {i. i < count \<and> buddha_route count i = CrossedLegs} =
     {(3 * count + 9) div 10..<(7 * count + 9) div 10}"
  by (auto simp: buddha_route_nat)

lemma buddha_aura_indices:
  "0 < count \<Longrightarrow>
   {i. i < count \<and> buddha_route count i = Aura} = {(7 * count + 9) div 10..<count}"
  by (auto simp: buddha_route_nat)




lemma ceil_floor_5: "(3 * c) div 5 \<le> (3 * c + 4) div 5 \<and> (3 * c + 4) div 5 \<le> (3 * c) div 5 + 1" for c :: nat
  by linarith

lemma ring_count: "c - (3 * c + 4) div 5 = (2 * c) div 5" for c :: nat
  by linarith

lemma ceil_floor_10: "(3 * c) div 10 \<le> (3 * c + 9) div 10 \<and> (3 * c + 9) div 10 \<le> (3 * c) div 10 + 1" for c :: nat
  by linarith

lemma legs_count:
  "(2 * c) div 5 \<le> (7 * c + 9) div 10 - (3 * c + 9) div 10 + 1 \<and>
   (7 * c + 9) div 10 - (3 * c + 9) div 10 \<le> (2 * c) div 5 + 1" for c :: nat
  by linarith

lemma aura_count: "c - (7 * c + 9) div 10 = (3 * c) div 10" for c :: nat
  by linarith


lemma near_int: "a \<le> b + 1 \<and> b \<le> a + 1 \<Longrightarrow> \<bar>int b - int a\<bar> \<le> 1" for a b :: nat
  by linarith

lemma near_int_up: "a \<le> b \<and> b \<le> a + 1 \<Longrightarrow> \<bar>int b - int a\<bar> \<le> 1" for a b :: nat
  by linarith

lemma flower_point:
  "shape_point ''FLOWER'' count rnd i k = (flower count i, k)"
  by (simp add: shape_point_def Let_def)

lemma unit_draws_half: "unit_draws (\<lambda>k. 1 / 2)"
  by (simp add: unit_draws_def)

lemma shape_point_buddha_head:
  "real i / real count < 0.3 \<Longrightarrow>
   shape_point ''BUDDHA'' count rnd i k =
     (((rnd k - 0.5) * 6, real i / real count * 20 - 5, (rnd (Suc k) - 0.5) * 4), Suc (Suc k))"
  by (simp add: shape_point_def buddha_def buddha_route_def buddha_head_torso_def
      Math_random_def Let_def)

section \<open>The step and the easing pass\<close>

lemma step_positions:
  "positions (step count T g time pts) = for_points (morph_point T time) count 0 (positions pts)"
  by (simp add: step_def setScalar_def Let_def)

lemma step_scenario:
  assumes "0 < count" and "positions pts = [0, 0, 0]"
  shows "positions (step count [10, 0, 0] g 0 pts) = [1, 0.02, 0]"
proof (rule nth_equalityI)
  let ?R = "positions (step count [10, 0, 0] g 0 pts)"
  show "length ?R = length [1, 0.02, 0 :: real]"
    by (simp add: step_positions morph_loop_length assms(2))
  fix j assume "j < length ?R"
  then have j: "j < 3" by (simp add: step_positions morph_loop_length assms(2))
  then consider "j = 0" | "j = 1" | "j = 2" by linarith
  then show "?R ! j = [1, 0.02, 0] ! j"
  proof cases
    case 1
    then show ?thesis using assms by (simp add: step_positions morph_loop_nth jitter_def)
  next
    case 2
    then show ?thesis using assms by (simp add: step_positions morph_loop_nth jitter_def)
  next
    case 3
    then show ?thesis using assms by (simp add: step_positions morph_loop_nth jitter_def)
  qed
qed

lemma step_fields:
  "step count T g time pts =
     pts\<lparr>positions := positions (step count T g time pts), needsUpdate := True,
         scale_x := 1 + expansion g * 2.5, scale_y := 1 + expansion g * 2.5,
         scale_z := 1 + expansion g * 2.5,
         rotation_y := rotation_y pts + (0.002 + rotation g * 0.05),
         rotation_z := rotation_z pts + 0.001\<rparr>"
  by (simp add: step_def setScalar_def Let_def)

lemma step_length: "length (positions (step count T g time pts)) = length (positions pts)"
  by (simp add: step_positions morph_loop_length)

lemma ease_iter_length: "length ((ease_pass count T ^^ n) P) = length P"
  by (induction n) (simp_all add: ease_pass_length)

lemma ease_once:
  "(t - a * (t - p)) + (t - (t - a * (t - p))) * 0.1 = t - (0.9 * a) * (t - p)" for t a p :: real
  by (simp add: field_simps)

lemma ease_iter_nth:
  "j < length P \<Longrightarrow> j div 3 < count \<Longrightarrow>
   (ease_pass count T ^^ n) P ! j = T ! j - 0.9 ^ n * (T ! j - P ! j)"
proof (induction n)
  case 0
  then show ?case by simp
next
  case (Suc n)
  have "j < length ((ease_pass count T ^^ n) P)"
    using Suc.prems(1) by (simp add: ease_iter_length)
  then have "(ease_pass count T ^^ Suc n) P ! j =
      (ease_pass count T ^^ n) P ! j + (T ! j - (ease_pass count T ^^ n) P ! j) * 0.1"
    using Suc.prems(2) by (simp add: ease_pass_nth)
  also have "\<dots> = T ! j - 0.9 ^ Suc n * (T ! j - P ! j)"
    by (simp only: Suc.IH [OF Suc.prems] ease_once power_Suc)
  finally show ?case .
qed

lemma distance_scaled:
  assumes "px - qx = a * (px0 - qx)" "py - qy = a * (py0 - qy)" "pz - qz = a * (pz0 - qz)"
    and "0 \<le> a"
  shows "distance (px, py, pz) (qx, qy, qz) = a * distance (px0, py0, pz0) (qx, qy, qz)"
proof -
  have "(px - qx)\<^sup>2 + (py - qy)\<^sup>2 + (pz - qz)\<^sup>2 =
      a\<^sup>2 * ((px0 - qx)\<^sup>2 + (py0 - qy)\<^sup>2 + (pz0 - qz)\<^sup>2)"
    unfolding assms(1-3) by (simp only: power_mult_distrib distrib_left)
  then show ?thesis
    using assms(4) by (simp add: distance_def real_sqrt_mult)
qed

lemma ease_iter_distance:
  assumes "i < count" and "i * 3 + 2 < length L"
  shows "distance (point_at ((ease_pass count T ^^ n) L) i) (point_at T i) =
           0.9 ^ n * distance (point_at L i) (point_at T i)"
proof -
  have d: "(i * 3) div 3 < count" "(i * 3 + 1) div 3 < count" "(i * 3 + 2) div 3 < count"
    using assms(1) by (simp_all add: slot_div_mod)
  have l: "i * 3 < length L" "i * 3 + 1 < length L" using assms(2) by simp_all
  let ?E = "(ease_pass count T ^^ n) L"
  have x: "?E ! (i * 3) - T ! (i * 3) = 0.9 ^ n * (L ! (i * 3) - T ! (i * 3))"
    by (simp only: ease_iter_nth [OF l(1) d(1)]) (simp add: algebra_simps)
  have y: "?E ! (i * 3 + 1) - T ! (i * 3 + 1) = 0.9 ^ n * (L ! (i * 3 + 1) - T ! (i * 3 + 1))"
    by (simp only: ease_iter_nth [OF l(2) d(2)]) (simp add: algebra_simps)
  have z: "?E ! (i * 3 + 2) - T ! (i * 3 + 2) = 0.9 ^ n * (L ! (i * 3 + 2) - T ! (i * 3 + 2))"
    by (simp only: ease_iter_nth [OF assms(2) d(3)]) (simp add: algebra_simps)
  show ?thesis
    unfolding point_at_def by (rule distance_scaled [OF x y z]) simp
qed

lemma decay_below:
  assumes "0 < eps" and "0 < d" and "ln (eps / d) / ln 0.9 < real n"
  shows "0.9 ^ n * d < (eps::real)"
proof -
  have neg: "ln (0.9::real) < 0" by (simp add: ln_less_zero)
  from assms(3) neg have "real n * ln 0.9 < ln (eps / d)"
    by (simp add: neg_divide_less_eq)
  then have "exp (real n * ln 0.9) < exp (ln (eps / d))" by (simp only: exp_less_cancel_iff)
  moreover have "exp (real n * ln 0.9) = (0.9::real) ^ n"
    by (simp add: exp_of_nat_mult)
  moreover have "exp (ln (eps / d)) = eps / d" using assms(1,2) by simp
  ultimately have "0.9 ^ n < eps / d" by simp
  then show ?thesis using assms(2) by (simp add: pos_less_divide_eq)
qed

lemma run_without_reports:
  assumes "\<forall>e \<in> set es. \<not> is_report e" and "pointsRef c = Some pts"
    and "gesture c = initial_gesture"
  shows "gesture (run count es c) = initial_gesture \<and>
     (\<exists>pts'. pointsRef (run count es c) = Some pts' \<and>
        rotation_y pts' = rotation_y pts + real (length (filter is_frame es)) * 0.002 \<and>
        rotation_z pts' = rotation_z pts + real (length (filter is_frame es)) * 0.001 \<and>
        scale_x pts' = (if filter is_frame es = [] then scale_x pts else 1) \<and>
        scale_y pts' = (if filter is_frame es = [] then scale_y pts else 1) \<and>
        scale_z pts' = (if filter is_frame es = [] then scale_z pts else 1))"
  using assms
proof (induction es arbitrary: c pts)
  case Nil
  then show ?case by simp
next
  case (Cons e es)
  have rest: "\<forall>e \<in> set es. \<not> is_report e" using Cons.prems(1) by simp
  show ?case
  proof (cases e)
    case (Frame time)
    let ?p = "step count (targetPositions c) (gesture c) time pts"
    let ?c = "handle count e c"
    have ref: "pointsRef ?c = Some ?p" and g: "gesture ?c = initial_gesture"
      using Frame Cons.prems(2,3) by (simp_all add: useFrame_callback_def)
    have p: "rotation_y ?p = rotation_y pts + 0.002" "rotation_z ?p = rotation_z pts + 0.001"
      "scale_x ?p = 1" "scale_y ?p = 1" "scale_z ?p = 1"
      using Cons.prems(3) by (simp_all add: step_def setScalar_def Let_def initial_gesture_def)
    from Cons.IH [OF rest ref g] p Frame show ?thesis
      by (auto simp: algebra_simps)
  next
    case (GestureReport g)
    with Cons.prems(1) show ?thesis by simp
  next
    case (SelectTemplate type rnd)
    let ?c = "handle count e c"
    have ref: "pointsRef ?c = Some pts" and g: "gesture ?c = initial_gesture"
      using SelectTemplate Cons.prems(2,3) by simp_all
    from Cons.IH [OF rest ref g] SelectTemplate show ?thesis by simp
  qed
qed


section \<open>One step on one point\<close>

text \<open>
  C1. For a point index \<open>i\<close> below \<open>count\<close> whose three slots exist in the live buffer
  \<open>L\<close> and the target buffer \<open>T\<close>, one step at elapsed time \<open>t\<close> leaves in each slot
  \<open>c\<close> of the point the eased value \<open>L[c] + (T[c] - L[c]) * 0.1\<close>, plus
  \<open>sin (t + i) * 0.02\<close> on \<open>x\<close> and \<open>cos (t + i) * 0.02\<close> on \<open>y\<close>, and nothing more on \<open>z\<close>.
  In particular one step with live \<open>[0, 0, 0]\<close>, target \<open>[10, 0, 0]\<close>, the neutral gesture and
  elapsed time 0 yields live \<open>[1, 0.02, 0]\<close>.
\<close>

theorem step_point_update:
  assumes "i < count" and "i * 3 + 2 < length (positions pts)"
    and "length T = length (positions pts)"
  shows
    "positions (step count T g time pts) ! (i * 3) =
       positions pts ! (i * 3) + (T ! (i * 3) - positions pts ! (i * 3)) * 0.1
         + sin (time + real i) * 0.02 \<and>
     positions (step count T g time pts) ! (i * 3 + 1) =
       positions pts ! (i * 3 + 1) + (T ! (i * 3 + 1) - positions pts ! (i * 3 + 1)) * 0.1
         + cos (time + real i) * 0.02 \<and>
     positions (step count T g time pts) ! (i * 3 + 2) =
       positions pts ! (i * 3 + 2) + (T ! (i * 3 + 2) - positions pts ! (i * 3 + 2)) * 0.1 \<and>
     positions (step count [10, 0, 0] \<lparr>expansion = 0, rotation = 0, isDetected = False\<rparr> 0
        (pts\<lparr>positions := [0, 0, 0]\<rparr>)) = [1, 0.02, 0]"
proof -
  have lens: "i * 3 < length (positions pts)" "i * 3 + 1 < length (positions pts)"
    using assms(2) by simp_all
  have x: "positions (step count T g time pts) ! (i * 3) =
       positions pts ! (i * 3) + (T ! (i * 3) - positions pts ! (i * 3)) * 0.1
         + sin (time + real i) * 0.02"
    unfolding step_positions
    by (subst morph_loop_nth [OF lens(1)]) (simp add: assms(1) jitter_def slot_div_mod)
  have y: "positions (step count T g time pts) ! (i * 3 + 1) =
       positions pts ! (i * 3 + 1) + (T ! (i * 3 + 1) - positions pts ! (i * 3 + 1)) * 0.1
         + cos (time + real i) * 0.02"
    unfolding step_positions
    by (subst morph_loop_nth [OF lens(2)]) (simp add: assms(1) jitter_def slot_div_mod)
  have z: "positions (step count T g time pts) ! (i * 3 + 2) =
       positions pts ! (i * 3 + 2) + (T ! (i * 3 + 2) - positions pts ! (i * 3 + 2)) * 0.1"
    unfolding step_positions
    by (subst morph_loop_nth [OF assms(2)]) (simp add: assms(1) jitter_def slot_div_mod)
  have "0 < count" using assms(1) by simp
  then have scenario:
    "positions (step count [10, 0, 0] \<lparr>expansion = 0, rotation = 0, isDetected = False\<rparr> 0
        (pts\<lparr>positions := [0, 0, 0]\<rparr>)) = [1, 0.02, 0]"
    by (rule step_scenario) simp
  show ?thesis by (intro conjI x y z scenario)
qed

theorem step_point_update_witness:
  "(0::nat) < 1 \<and>
   0 * 3 + 2 < length (positions \<lparr>positions = [0, 0, 0], needsUpdate = False, scale_x = 1,
      scale_y = 1, scale_z = 1, rotation_x = 0, rotation_y = 0, rotation_z = 0\<rparr>) \<and>
   length [10, 0, 0 :: real] = length (positions \<lparr>positions = [0, 0, 0], needsUpdate = False,
      scale_x = 1, scale_y = 1, scale_z = 1, rotation_x = 0, rotation_y = 0, rotation_z = 0\<rparr>) \<and>
   positions (step 1 [10, 0, 0] \<lparr>expansion = 0, rotation = 0, isDetected = False\<rparr> 0
      \<lparr>positions = [0, 0, 0], needsUpdate = False, scale_x = 1, scale_y = 1, scale_z = 1,
       rotation_x = 0, rotation_y = 0, rotation_z = 0\<rparr>) = [1, 0.02, 0]"
  using step_point_update [where i = 0 and count = 1
      and pts = "\<lparr>positions = [0, 0, 0], needsUpdate = False, scale_x = 1, scale_y = 1,
        scale_z = 1, rotation_x = 0, rotation_y = 0, rotation_z = 0\<rparr>"
      and T = "[10, 0, 0]" and g = "\<lparr>expansion = 0, rotation = 0, isDetected = False\<rparr>"
      and time = 0]
  by simp

section \<open>Convergence of the easing\<close>

text \<open>
  C2, as the code has it. With the jitter held aside, one pass of the easing multiplies the
  gap \<open>T[c] - L[c]\<close> of every coordinate of every point by 0.9. So each pass multiplies the
  Euclidean distance \<open>d\<close> between a live point and its target point by 0.9, which
  strictly decreases it while it is not zero; after \<open>n\<close> passes the distance is
  \<open>0.9 ^ n * d\<^sub>0\<close>, and it is below \<open>eps > 0\<close> as soon as \<open>n\<close> exceeds
  \<open>ln (eps / d\<^sub>0) / ln 0.9\<close>, where \<open>d\<^sub>0 > 0\<close> is the initial distance.
\<close>

theorem ease_convergence:
  assumes "i < count" and "i * 3 + 2 < length L" and "length T = length L"
  shows
    "T ! (i * 3) - ease_pass count T L ! (i * 3) = 0.9 * (T ! (i * 3) - L ! (i * 3)) \<and>
     T ! (i * 3 + 1) - ease_pass count T L ! (i * 3 + 1) =
       0.9 * (T ! (i * 3 + 1) - L ! (i * 3 + 1)) \<and>
     T ! (i * 3 + 2) - ease_pass count T L ! (i * 3 + 2) =
       0.9 * (T ! (i * 3 + 2) - L ! (i * 3 + 2)) \<and>
     distance (point_at ((ease_pass count T ^^ Suc n) L) i) (point_at T i) =
       0.9 * distance (point_at ((ease_pass count T ^^ n) L) i) (point_at T i) \<and>
     (0 < distance (point_at ((ease_pass count T ^^ n) L) i) (point_at T i) \<longrightarrow>
        distance (point_at ((ease_pass count T ^^ Suc n) L) i) (point_at T i) <
          distance (point_at ((ease_pass count T ^^ n) L) i) (point_at T i)) \<and>
     distance (point_at ((ease_pass count T ^^ n) L) i) (point_at T i) =
       0.9 ^ n * distance (point_at L i) (point_at T i) \<and>
     (0 < eps \<longrightarrow> 0 < distance (point_at L i) (point_at T i) \<longrightarrow>
        ln (eps / distance (point_at L i) (point_at T i)) / ln 0.9 < real n \<longrightarrow>
        distance (point_at ((ease_pass count T ^^ n) L) i) (point_at T i) < eps)"
proof -
  let ?d = "\<lambda>n. distance (point_at ((ease_pass count T ^^ n) L) i) (point_at T i)"
  have d: "(i * 3) div 3 < count" "(i * 3 + 1) div 3 < count" "(i * 3 + 2) div 3 < count"
    using assms(1) by (simp_all add: slot_div_mod)
  have l: "i * 3 < length L" "i * 3 + 1 < length L" using assms(2) by simp_all
  have gx: "T ! (i * 3) - ease_pass count T L ! (i * 3) = 0.9 * (T ! (i * 3) - L ! (i * 3))"
    using ease_iter_nth [OF l(1) d(1), where T = T and n = 1] by simp
  have gy: "T ! (i * 3 + 1) - ease_pass count T L ! (i * 3 + 1) =
       0.9 * (T ! (i * 3 + 1) - L ! (i * 3 + 1))"
    using ease_iter_nth [OF l(2) d(2), where T = T and n = 1] by simp
  have gz: "T ! (i * 3 + 2) - ease_pass count T L ! (i * 3 + 2) =
       0.9 * (T ! (i * 3 + 2) - L ! (i * 3 + 2))"
    using ease_iter_nth [OF assms(2) d(3), where T = T and n = 1] by simp
  have dn: "?d m = 0.9 ^ m * ?d 0" for m
    using ease_iter_distance [OF assms(1,2), where T = T and n = m] by simp
  have step: "?d (Suc n) = 0.9 * ?d n"
    by (simp only: dn [of "Suc n"] dn [of n] power_Suc mult.assoc)
  have dec: "0 < ?d n \<longrightarrow> ?d (Suc n) < ?d n"
    by (simp only: step) simp
  have conv: "0 < eps \<longrightarrow> 0 < ?d 0 \<longrightarrow> ln (eps / ?d 0) / ln 0.9 < real n \<longrightarrow> ?d n < eps"
    by (simp only: dn [of n]) (auto intro: decay_below)
  have d0: "?d 0 = distance (point_at L i) (point_at T i)" by simp
  show ?thesis
    using gx gy gz step dec dn [of n] conv unfolding d0 by (intro conjI)
qed

theorem ease_convergence_witness:
  "(0::nat) < 1 \<and> 0 * 3 + 2 < length [0, 0, 0 :: real] \<and>
   length [1, 0, 0 :: real] = length [0, 0, 0 :: real] \<and>
   (0::real) < 1 \<and> 0 < distance (point_at [0, 0, 0] 0) (point_at [1, 0, 0] 0) \<and>
   ln (1 / distance (point_at [0, 0, 0] 0) (point_at [1, 0, 0] 0)) / ln 0.9 < real (1::nat) \<and>
   distance (point_at ((ease_pass 1 [1, 0, 0] ^^ 1) [0, 0, 0]) 0) (point_at [1, 0, 0] 0) < 1 \<and>
   0 < distance (point_at ((ease_pass 1 [1, 0, 0] ^^ 1) [0, 0, 0]) 0) (point_at [1, 0, 0] 0) \<and>
   distance (point_at ((ease_pass 1 [1, 0, 0] ^^ Suc 1) [0, 0, 0]) 0) (point_at [1, 0, 0] 0) <
     distance (point_at ((ease_pass 1 [1, 0, 0] ^^ 1) [0, 0, 0]) 0) (point_at [1, 0, 0] 0)"
proof -
  have h1: "(0::nat) < 1" and h2: "0 * 3 + 2 < length [0, 0, 0 :: real]"
    and h3: "length [1, 0, 0 :: real] = length [0, 0, 0 :: real]" by simp_all
  have d0: "distance (point_at [0, 0, 0] 0) (point_at [1, 0, 0] 0) = 1"
    by (simp add: distance_def point_at_def)
  note t = ease_convergence [OF h1 h2 h3, where n = 1 and eps = 1]
  show ?thesis using t d0 by simp
qed

text \<open>
  The number of passes depends on the initial distance, not on \<open>eps\<close> alone: for
  \<open>eps = 0.9\<close> the quotient \<open>ln eps / ln 0.9\<close> is 1, yet from the live point
  \<open>(0, 0, 0)\<close> and the target \<open>(10, 0, 0)\<close> the distance is still not below 0.9 after one
  pass, nor after ten.
\<close>

theorem ease_iterations_counterexample:
  "ln 0.9 / ln 0.9 = (1::real) \<and>
   \<not> distance (point_at ((ease_pass 1 [10, 0, 0] ^^ 1) [0, 0, 0]) 0) (point_at [10, 0, 0] 0) < 0.9 \<and>
   \<not> distance (point_at ((ease_pass 1 [10, 0, 0] ^^ 10) [0, 0, 0]) 0) (point_at [10, 0, 0] 0) < 0.9"
proof -
  have "ln (0.9::real) < 0" by (simp add: ln_less_zero)
  then have one: "ln 0.9 / ln 0.9 = (1::real)" by simp
  have d0: "distance (point_at [0, 0, 0] 0) (point_at [10, 0, 0] 0) = 10"
    by (simp add: distance_def point_at_def)
  have d: "distance (point_at ((ease_pass 1 [10, 0, 0] ^^ n) [0, 0, 0]) 0) (point_at [10, 0, 0] 0) =
      0.9 ^ n * 10" for n
    using ease_iter_distance [where i = 0 and count = 1 and L = "[0, 0, 0]" and T = "[10, 0, 0]" and n = n] d0 by simp
  show ?thesis
    by (simp only: d one) (simp add: power_divide)
qed

section \<open>The transform of the whole cloud\<close>

text \<open>
  C3. A step sets the uniform scale to \<open>1 + expansion * 2.5\<close> (1 for expansion 0, 3.5 for
  expansion 1), adds \<open>0.002 + rotation * 0.05\<close> to the rotation about the first axis (the
  \<open>y\<close> angle), and adds the constant 0.001 to the rotation about a second axis (the \<open>z\<close>
  angle) whatever the gesture, also when no gesture is detected.
\<close>

theorem step_transform:
  "scale_x (step count T g time pts) = 1 + expansion g * 2.5 \<and>
   scale_y (step count T g time pts) = 1 + expansion g * 2.5 \<and>
   scale_z (step count T g time pts) = 1 + expansion g * 2.5 \<and>
   scale_x (step count T (g\<lparr>expansion := 0\<rparr>) time pts) = 1 \<and>
   scale_x (step count T (g\<lparr>expansion := 1\<rparr>) time pts) = 3.5 \<and>
   rotation_y (step count T g time pts) = rotation_y pts + (0.002 + rotation g * 0.05) \<and>
   rotation_z (step count T g time pts) = rotation_z pts + 0.001 \<and>
   rotation_z (step count T (g\<lparr>isDetected := False\<rparr>) time pts) = rotation_z pts + 0.001 \<and>
   rotation_x (step count T g time pts) = rotation_x pts"
  by (simp add: step_def setScalar_def Let_def)

section \<open>SATURN: sphere and ring\<close>

text \<open>
  C4. In the SATURN shape, an index \<open>i\<close> with \<open>i < 0.6 * count\<close> gives the point with polar
  angle \<open>phi = arccos (-1 + 2i/count)\<close> and azimuth \<open>theta = phi * sqrt (count * pi)\<close> on the
  sphere of radius 10, so \<open>x\<^sup>2 + y\<^sup>2 + z\<^sup>2 = 100\<close>. Every other index gives a ring point:
  with draws in the unit interval, its radial distance \<open>sqrt (x\<^sup>2 + z\<^sup>2)\<close> is between 14
  and 22 and its \<open>y\<close> is between -0.25 and 0.25.
\<close>

theorem saturn_sphere_and_ring:
  assumes "i < count"
  shows
    "(real i < real count * 0.6 \<longrightarrow>
        (let phi = arccos (- 1 + 2 * real i / real count);
             theta = phi * sqrt (real count * pi)
         in point_at (generatePositions ''SATURN'' count rnd) i =
              (10 * sin phi * cos theta, 10 * sin phi * sin theta, 10 * cos phi)) \<and>
        (case point_at (generatePositions ''SATURN'' count rnd) i of
           (x, y, z) \<Rightarrow> x\<^sup>2 + y\<^sup>2 + z\<^sup>2 = 100)) \<and>
     (\<not> real i < real count * 0.6 \<longrightarrow> unit_draws rnd \<longrightarrow>
        (case point_at (generatePositions ''SATURN'' count rnd) i of
           (x, y, z) \<Rightarrow>
             14 \<le> sqrt (x\<^sup>2 + z\<^sup>2) \<and> sqrt (x\<^sup>2 + z\<^sup>2) \<le> 22 \<and>
             - 0.25 \<le> y \<and> y \<le> 0.25))"
proof (intro conjI impI)
  let ?G = "generatePositions ''SATURN'' count rnd"
  let ?k = "draws_before ''SATURN'' count rnd i"
  let ?phi = "arccos (- 1 + 2 * real i / real count)"
  have pt: "point_at ?G i = fst (shape_point ''SATURN'' count rnd i ?k)"
    by (rule generatePositions_point [OF assms])
  {
    assume c: "real i < real count * 0.6"
    have sp: "point_at ?G i = saturn_sphere ?phi (sqrt (real count * pi) * ?phi)"
      using shape_point_saturn_sphere [OF c, of rnd ?k] pt by simp
    show "let phi = ?phi; theta = phi * sqrt (real count * pi)
         in point_at ?G i = (10 * sin phi * cos theta, 10 * sin phi * sin theta, 10 * cos phi)"
      by (simp add: sp saturn_sphere_def Let_def mult.commute)
    obtain x y z where xyz: "point_at ?G i = (x, y, z)" by (rule prod_cases3)
    with sp have "saturn_sphere ?phi (sqrt (real count * pi) * ?phi) = (x, y, z)" by simp
    from saturn_sphere_on_sphere [OF this] xyz
    show "case point_at ?G i of (x, y, z) \<Rightarrow> x\<^sup>2 + y\<^sup>2 + z\<^sup>2 = 100" by simp
  }
  {
    assume c: "\<not> real i < real count * 0.6" and u: "unit_draws rnd"
    obtain x y z k' where r: "saturn_ring rnd ?k = ((x, y, z), k')"
      by (metis prod_cases3 surj_pair)
    have xyz: "point_at ?G i = (x, y, z)"
      using shape_point_saturn_ring [OF c, of rnd ?k] pt r by simp
    from saturn_ring_bounds [OF u r] xyz
    show "case point_at ?G i of
           (x, y, z) \<Rightarrow>
             14 \<le> sqrt (x\<^sup>2 + z\<^sup>2) \<and> sqrt (x\<^sup>2 + z\<^sup>2) \<le> 22 \<and>
             - 0.25 \<le> y \<and> y \<le> 0.25"
      by simp
  }
qed

theorem saturn_sphere_and_ring_witness:
  "(0::nat) < 10 \<and> real (0::nat) < real (10::nat) * 0.6 \<and>
   (case point_at (generatePositions ''SATURN'' 10 (\<lambda>k. 1 / 2)) 0 of
      (x, y, z) \<Rightarrow> x\<^sup>2 + y\<^sup>2 + z\<^sup>2 = 100) \<and>
   (9::nat) < 10 \<and> \<not> real (9::nat) < real (10::nat) * 0.6 \<and> unit_draws (\<lambda>k. 1 / 2) \<and>
   (case point_at (generatePositions ''SATURN'' 10 (\<lambda>k. 1 / 2)) 9 of
      (x, y, z) \<Rightarrow>
        14 \<le> sqrt (x\<^sup>2 + z\<^sup>2) \<and> sqrt (x\<^sup>2 + z\<^sup>2) \<le> 22 \<and> - 0.25 \<le> y \<and> y \<le> 0.25)"
proof -
  have h0: "(0::nat) < 10" and h9: "(9::nat) < 10" by simp_all
  have c0: "real (0::nat) < real (10::nat) * 0.6" by simp
  have c9: "\<not> real (9::nat) < real (10::nat) * 0.6" by simp
  note t0 = saturn_sphere_and_ring [OF h0, of "\<lambda>k. 1 / 2"]
  note t9 = saturn_sphere_and_ring [OF h9, of "\<lambda>k. 1 / 2"]
  note sphere = conjunct2 [OF mp [OF conjunct1 [OF t0] c0]]
  note ring = mp [OF mp [OF conjunct2 [OF t9] c9] unit_draws_half]
  show ?thesis
    by (intro conjI h0 c0 sphere h9 c9 unit_draws_half ring)
qed

section \<open>BUDDHA: head and torso\<close>

text \<open>
  C5, as the code has it. In the BUDDHA shape, an index whose segment fraction \<open>i / count\<close>
  is below 0.3 is routed to the head and torso branch; with draws \<open>u\<close>, \<open>v\<close> in the unit
  interval its point has \<open>x = (u - 0.5) * 6\<close> in \<open>[-3, 3)\<close>, \<open>z = (v - 0.5) * 4\<close> in
  \<open>[-2, 2)\<close> and \<open>y = 20 * (i / count) - 5\<close>, which on this branch lies in \<open>[-5, 1)\<close>.
\<close>

theorem buddha_head_torso_points:
  assumes "i < count" and "real i / real count < 0.3" and "unit_draws rnd"
  shows
    "buddha_route count i = HeadTorso \<and>
     (case point_at (generatePositions ''BUDDHA'' count rnd) i of
        (x, y, z) \<Rightarrow>
          x = (rnd (draws_before ''BUDDHA'' count rnd i) - 0.5) * 6 \<and>
          z = (rnd (Suc (draws_before ''BUDDHA'' count rnd i)) - 0.5) * 4 \<and>
          - 3 \<le> x \<and> x < 3 \<and> - 2 \<le> z \<and> z < 2 \<and>
          y = 20 * (real i / real count) - 5 \<and> - 5 \<le> y \<and> y < 1)"
proof -
  let ?k = "draws_before ''BUDDHA'' count rnd i"
  have pt: "point_at (generatePositions ''BUDDHA'' count rnd) i =
      ((rnd ?k - 0.5) * 6, real i / real count * 20 - 5, (rnd (Suc ?k) - 0.5) * 4)"
    using generatePositions_point [OF assms(1), of "''BUDDHA''" rnd]
      shape_point_buddha_head [OF assms(2), of rnd ?k] by simp
  have u: "0 \<le> rnd ?k" "rnd ?k < 1" "0 \<le> rnd (Suc ?k)" "rnd (Suc ?k) < 1"
    using assms(3) by (simp_all add: unit_draws_def)
  define s where "s = real i / real count"
  have seg: "0 \<le> s" "s < 0.3" using assms(2) by (simp_all add: s_def)
  have y: "s * 20 - 5 = 20 * s - 5" "- 5 \<le> s * 20 - 5" "s * 20 - 5 < 1"
    using seg by simp_all
  have route: "buddha_route count i = HeadTorso"
    using assms(2) by (simp add: buddha_route_def Let_def)
  show ?thesis
    unfolding pt s_def [symmetric] using u y route by simp
qed

theorem buddha_head_torso_points_witness:
  "(2::nat) < 10 \<and> real (2::nat) / real (10::nat) < 0.3 \<and> unit_draws (\<lambda>k. 1 / 2) \<and>
   buddha_route 10 2 = HeadTorso \<and>
   point_at (generatePositions ''BUDDHA'' 10 (\<lambda>k. 1 / 2)) 2 = (0, - 1, 0)"
proof -
  have h: "(2::nat) < 10" by simp
  have c: "real (2::nat) / real (10::nat) < 0.3" by simp
  obtain x y z where xyz: "point_at (generatePositions ''BUDDHA'' 10 (\<lambda>k. 1 / 2)) 2 = (x, y, z)"
    by (rule prod_cases3)
  show ?thesis
    using buddha_head_torso_points [OF h c unit_draws_half] h c unit_draws_half xyz by simp
qed

text \<open>
  The heights of the head and torso do not span the interval from -5 to 15: with 1000
  points the branch holds the indices 0 to 299, its lowest point is at height -5 and its
  highest at 0.98; index 300 already belongs to the crossed legs.
\<close>

theorem buddha_head_torso_span_counterexample:
  "buddha_route 1000 0 = HeadTorso \<and>
   fst (snd (point_at (generatePositions ''BUDDHA'' 1000 (\<lambda>k. 1 / 2)) 0)) = - 5 \<and>
   buddha_route 1000 299 = HeadTorso \<and>
   fst (snd (point_at (generatePositions ''BUDDHA'' 1000 (\<lambda>k. 1 / 2)) 299)) = 49 / 50 \<and>
   buddha_route 1000 300 = CrossedLegs"
proof -
  have r: "buddha_route 1000 0 = HeadTorso" "buddha_route 1000 299 = HeadTorso"
    "buddha_route 1000 300 = CrossedLegs"
    by (simp_all add: buddha_route_def Let_def)
  have c0: "real (0::nat) / real (1000::nat) < 0.3" by simp
  have c299: "real (299::nat) / real (1000::nat) < 0.3" by simp
  have "fst (snd (point_at (generatePositions ''BUDDHA'' 1000 (\<lambda>k. 1 / 2)) 0)) = - 5"
    using generatePositions_point [of 0 1000 "''BUDDHA''" "\<lambda>k. 1 / 2"]
    by (simp add: shape_point_buddha_head [OF c0])
  moreover have "fst (snd (point_at (generatePositions ''BUDDHA'' 1000 (\<lambda>k. 1 / 2)) 299)) = 49 / 50"
    using generatePositions_point [of 299 1000 "''BUDDHA''" "\<lambda>k. 1 / 2"]
    by (simp add: shape_point_buddha_head [OF c299])
  ultimately show ?thesis using r by simp
qed

section \<open>FLOWER: the phyllotaxis spiral\<close>

text \<open>
  C6. In the FLOWER shape, point \<open>i\<close> has radius \<open>15 * sqrt (i / count)\<close> and angle
  \<open>i * 137.5\<close> degrees, with \<open>x = r * cos angle\<close>, \<open>y = r * sin angle\<close> and
  \<open>z = 2 * sin (0.5 * r)\<close>; the radius is the distance of the point from the axis. Point 0
  has radius 0, the radius does not decrease from one index to the next, and consecutive
  angles differ by 137.5 degrees.
\<close>

theorem flower_spiral:
  assumes "i < count"
  shows
    "point_at (generatePositions ''FLOWER'' count rnd) i =
       (flower_radius count i * cos (flower_angle i),
        flower_radius count i * sin (flower_angle i),
        2 * sin (0.5 * flower_radius count i)) \<and>
     flower_radius count i = 15 * sqrt (real i / real count) \<and>
     flower_angle i = real i * 137.5 * (pi / 180) \<and>
     (case point_at (generatePositions ''FLOWER'' count rnd) i of
        (x, y, z) \<Rightarrow> sqrt (x\<^sup>2 + y\<^sup>2) = flower_radius count i) \<and>
     flower_radius count 0 = 0 \<and>
     flower_radius count i \<le> flower_radius count (Suc i) \<and>
     flower_angle (Suc i) - flower_angle i = 137.5 * (pi / 180)"
proof -
  let ?r = "flower_radius count i" and ?a = "flower_angle i"
  have pt: "point_at (generatePositions ''FLOWER'' count rnd) i =
      (?r * cos ?a, ?r * sin ?a, 2 * sin (0.5 * ?r))"
    using generatePositions_point [OF assms, of "''FLOWER''" rnd]
    by (simp add: flower_point flower_def Let_def mult.commute)
  have r0: "0 \<le> ?r" by (simp add: flower_radius_def)
  have "(?r * cos ?a)\<^sup>2 + (?r * sin ?a)\<^sup>2 = ?r\<^sup>2 * ((cos ?a)\<^sup>2 + (sin ?a)\<^sup>2)"
    by (simp only: power_mult_distrib distrib_left)
  also have "\<dots> = ?r\<^sup>2" by (simp only: sin_cos_squared_add2 mult_1_right)
  finally have rad: "sqrt ((?r * cos ?a)\<^sup>2 + (?r * sin ?a)\<^sup>2) = ?r"
    using r0 by simp
  have mono: "flower_radius count i \<le> flower_radius count (Suc i)"
    by (simp add: flower_radius_def divide_right_mono)
  have ang: "flower_angle (Suc i) - flower_angle i = 137.5 * (pi / 180)"
    by (simp add: flower_angle_def algebra_simps)
  show ?thesis
    using rad mono ang by (simp add: pt) (simp add: flower_radius_def flower_angle_def)
qed

theorem flower_spiral_witness:
  "(1::nat) < 4 \<and>
   point_at (generatePositions ''FLOWER'' 4 (\<lambda>k. 1 / 2)) 1 =
     (flower_radius 4 1 * cos (flower_angle 1),
      flower_radius 4 1 * sin (flower_angle 1),
      2 * sin (0.5 * flower_radius 4 1)) \<and>
   flower_radius 4 1 = 15 / 2 \<and>
   flower_radius 4 0 = 0 \<and>
   flower_radius 4 1 \<le> flower_radius 4 (Suc 1) \<and>
   flower_angle (Suc 1) - flower_angle 1 = 137.5 * (pi / 180)"
proof -
  have h: "(1::nat) < 4" by simp
  have "sqrt (1 / 4) = 1 / 2" by (simp add: real_sqrt_divide)
  then show ?thesis
    using h flower_spiral [OF h, of "\<lambda>k. 1 / 2"] by simp
qed

section \<open>Partition of the indices\<close>

text \<open>
  C7. For a positive count, every index below \<open>count\<close> is routed to exactly one branch, and
  the point the generator stores for it is the one that branch computes: the sphere or the
  ring for SATURN; head and torso, crossed legs or aura for BUDDHA. The branches are
  pairwise disjoint and cover every index below \<open>count\<close>, and the number of indices in
  each branch is within one of \<open>floor (count * fraction)\<close> for the fractions 0.6, 0.4 and
  0.3, 0.4, 0.3.
\<close>

theorem segment_partition:
  assumes "0 < count"
  shows
    "(i < count \<longrightarrow>
        point_at (generatePositions ''SATURN'' count rnd) i =
          (case saturn_route count i of
             Sphere \<Rightarrow>
               saturn_sphere (arccos (- 1 + 2 * real i / real count))
                 (sqrt (real count * pi) * arccos (- 1 + 2 * real i / real count))
           | Ring \<Rightarrow> fst (saturn_ring rnd (draws_before ''SATURN'' count rnd i))) \<and>
        point_at (generatePositions ''BUDDHA'' count rnd) i =
          (case buddha_route count i of
             HeadTorso \<Rightarrow>
               fst (buddha_head_torso (real i / real count) rnd
                      (draws_before ''BUDDHA'' count rnd i))
           | CrossedLegs \<Rightarrow>
               fst (buddha_crossed_legs (real i / real count) rnd
                      (draws_before ''BUDDHA'' count rnd i))
           | Aura \<Rightarrow> fst (buddha_aura rnd (draws_before ''BUDDHA'' count rnd i)))) \<and>
     saturn_indices count Sphere \<union> saturn_indices count Ring = {..<count} \<and>
     saturn_indices count Sphere \<inter> saturn_indices count Ring = {} \<and>
     \<bar>int (card (saturn_indices count Sphere)) - \<lfloor>real count * 0.6\<rfloor>\<bar> \<le> 1 \<and>
     \<bar>int (card (saturn_indices count Ring)) - \<lfloor>real count * 0.4\<rfloor>\<bar> \<le> 1 \<and>
     buddha_indices count HeadTorso \<union> buddha_indices count CrossedLegs \<union>
       buddha_indices count Aura = {..<count} \<and>
     buddha_indices count HeadTorso \<inter> buddha_indices count CrossedLegs = {} \<and>
     buddha_indices count HeadTorso \<inter> buddha_indices count Aura = {} \<and>
     buddha_indices count CrossedLegs \<inter> buddha_indices count Aura = {} \<and>
     \<bar>int (card (buddha_indices count HeadTorso)) - \<lfloor>real count * 0.3\<rfloor>\<bar> \<le> 1 \<and>
     \<bar>int (card (buddha_indices count CrossedLegs)) - \<lfloor>real count * 0.4\<rfloor>\<bar> \<le> 1 \<and>
     \<bar>int (card (buddha_indices count Aura)) - \<lfloor>real count * 0.3\<rfloor>\<bar> \<le> 1"
proof -
  have s_all: "{i. i < count \<and> saturn_route count i = Sphere} \<union>
       {i. i < count \<and> saturn_route count i = Ring} = {..<count}"
    by (auto simp: saturn_route_def)
  have s_dis: "{i. i < count \<and> saturn_route count i = Sphere} \<inter>
       {i. i < count \<and> saturn_route count i = Ring} = {}"
    by auto
  have s1: "\<bar>int (card {i. i < count \<and> saturn_route count i = Sphere}) - \<lfloor>real count * 0.6\<rfloor>\<bar> \<le> 1"
    unfolding saturn_sphere_indices floor_fraction card_lessThan
    by (rule near_int_up [OF ceil_floor_5])
  have s2: "\<bar>int (card {i. i < count \<and> saturn_route count i = Ring}) - \<lfloor>real count * 0.4\<rfloor>\<bar> \<le> 1"
    unfolding saturn_ring_indices floor_fraction card_atLeastLessThan
    by (simp add: ring_count)
  have b_all: "{i. i < count \<and> buddha_route count i = HeadTorso} \<union>
       {i. i < count \<and> buddha_route count i = CrossedLegs} \<union>
       {i. i < count \<and> buddha_route count i = Aura} = {..<count}"
    by (auto simp: buddha_route_def Let_def)
  have b_dis1: "{i. i < count \<and> buddha_route count i = HeadTorso} \<inter>
       {i. i < count \<and> buddha_route count i = CrossedLegs} = {}"
    by auto
  have b_dis2: "{i. i < count \<and> buddha_route count i = HeadTorso} \<inter>
       {i. i < count \<and> buddha_route count i = Aura} = {}"
    by auto
  have b_dis3: "{i. i < count \<and> buddha_route count i = CrossedLegs} \<inter>
       {i. i < count \<and> buddha_route count i = Aura} = {}"
    by auto
  have b1: "\<bar>int (card {i. i < count \<and> buddha_route count i = HeadTorso}) - \<lfloor>real count * 0.3\<rfloor>\<bar> \<le> 1"
    unfolding buddha_head_indices [OF assms] floor_fraction card_lessThan
    by (rule near_int_up [OF ceil_floor_10])
  have b2: "\<bar>int (card {i. i < count \<and> buddha_route count i = CrossedLegs}) - \<lfloor>real count * 0.4\<rfloor>\<bar> \<le> 1"
    unfolding buddha_legs_indices [OF assms] floor_fraction card_atLeastLessThan
    by (rule near_int [OF legs_count])
  have b3: "\<bar>int (card {i. i < count \<and> buddha_route count i = Aura}) - \<lfloor>real count * 0.3\<rfloor>\<bar> \<le> 1"
    unfolding buddha_aura_indices [OF assms] floor_fraction card_atLeastLessThan
    by (simp add: aura_count)
  have tie: "i < count \<longrightarrow>
        point_at (generatePositions ''SATURN'' count rnd) i =
          (case saturn_route count i of
             Sphere \<Rightarrow>
               saturn_sphere (arccos (- 1 + 2 * real i / real count))
                 (sqrt (real count * pi) * arccos (- 1 + 2 * real i / real count))
           | Ring \<Rightarrow> fst (saturn_ring rnd (draws_before ''SATURN'' count rnd i))) \<and>
        point_at (generatePositions ''BUDDHA'' count rnd) i =
          (case buddha_route count i of
             HeadTorso \<Rightarrow>
               fst (buddha_head_torso (real i / real count) rnd
                      (draws_before ''BUDDHA'' count rnd i))
           | CrossedLegs \<Rightarrow>
               fst (buddha_crossed_legs (real i / real count) rnd
                      (draws_before ''BUDDHA'' count rnd i))
           | Aura \<Rightarrow> fst (buddha_aura rnd (draws_before ''BUDDHA'' count rnd i)))"
  proof (intro impI conjI)
    assume lt: "i < count"
    show "point_at (generatePositions ''SATURN'' count rnd) i =
          (case saturn_route count i of
             Sphere \<Rightarrow>
               saturn_sphere (arccos (- 1 + 2 * real i / real count))
                 (sqrt (real count * pi) * arccos (- 1 + 2 * real i / real count))
           | Ring \<Rightarrow> fst (saturn_ring rnd (draws_before ''SATURN'' count rnd i)))"
      by (simp only: generatePositions_point [OF lt])
        (simp add: shape_point_def saturn_def Let_def split: saturn_branch.split)
    show "point_at (generatePositions ''BUDDHA'' count rnd) i =
          (case buddha_route count i of
             HeadTorso \<Rightarrow>
               fst (buddha_head_torso (real i / real count) rnd
                      (draws_before ''BUDDHA'' count rnd i))
           | CrossedLegs \<Rightarrow>
               fst (buddha_crossed_legs (real i / real count) rnd
                      (draws_before ''BUDDHA'' count rnd i))
           | Aura \<Rightarrow> fst (buddha_aura rnd (draws_before ''BUDDHA'' count rnd i)))"
      by (simp only: generatePositions_point [OF lt])
        (simp add: shape_point_def buddha_def Let_def split: buddha_branch.split)
  qed
  have parts:
    "saturn_indices count Sphere \<union> saturn_indices count Ring = {..<count} \<and>
     saturn_indices count Sphere \<inter> saturn_indices count Ring = {} \<and>
     \<bar>int (card (saturn_indices count Sphere)) - \<lfloor>real count * 0.6\<rfloor>\<bar> \<le> 1 \<and>
     \<bar>int (card (saturn_indices count Ring)) - \<lfloor>real count * 0.4\<rfloor>\<bar> \<le> 1 \<and>
     buddha_indices count HeadTorso \<union> buddha_indices count CrossedLegs \<union>
       buddha_indices count Aura = {..<count} \<and>
     buddha_indices count HeadTorso \<inter> buddha_indices count CrossedLegs = {} \<and>
     buddha_indices count HeadTorso \<inter> buddha_indices count Aura = {} \<and>
     buddha_indices count CrossedLegs \<inter> buddha_indices count Aura = {} \<and>
     \<bar>int (card (buddha_indices count HeadTorso)) - \<lfloor>real count * 0.3\<rfloor>\<bar> \<le> 1 \<and>
     \<bar>int (card (buddha_indices count CrossedLegs)) - \<lfloor>real count * 0.4\<rfloor>\<bar> \<le> 1 \<and>
     \<bar>int (card (buddha_indices count Aura)) - \<lfloor>real count * 0.3\<rfloor>\<bar> \<le> 1"
    unfolding saturn_indices_def buddha_indices_def
    by (intro conjI s_all s_dis s1 s2 b_all b_dis1 b_dis2 b_dis3 b1 b2 b3)
  show ?thesis by (rule conjI [OF tie parts])
qed

theorem segment_partition_witness:
  "(0::nat) < 10 \<and> (5::nat) < 10 \<and>
   (point_at (generatePositions ''SATURN'' 10 (\<lambda>k. 1 / 2)) 5 =
      (case saturn_route 10 5 of
         Sphere \<Rightarrow>
           saturn_sphere (arccos (- 1 + 2 * real (5::nat) / real (10::nat)))
             (sqrt (real (10::nat) * pi) * arccos (- 1 + 2 * real (5::nat) / real (10::nat)))
       | Ring \<Rightarrow> fst (saturn_ring (\<lambda>k. 1 / 2) (draws_before ''SATURN'' 10 (\<lambda>k. 1 / 2) 5))) \<and>
    point_at (generatePositions ''BUDDHA'' 10 (\<lambda>k. 1 / 2)) 5 =
      (case buddha_route 10 5 of
         HeadTorso \<Rightarrow>
           fst (buddha_head_torso (real (5::nat) / real (10::nat)) (\<lambda>k. 1 / 2)
                  (draws_before ''BUDDHA'' 10 (\<lambda>k. 1 / 2) 5))
       | CrossedLegs \<Rightarrow>
           fst (buddha_crossed_legs (real (5::nat) / real (10::nat)) (\<lambda>k. 1 / 2)
                  (draws_before ''BUDDHA'' 10 (\<lambda>k. 1 / 2) 5))
       | Aura \<Rightarrow> fst (buddha_aura (\<lambda>k. 1 / 2) (draws_before ''BUDDHA'' 10 (\<lambda>k. 1 / 2) 5)))) \<and>
   saturn_route 10 5 = Sphere \<and> buddha_route 10 5 = CrossedLegs \<and>
   (saturn_indices 10 Sphere \<union> saturn_indices 10 Ring = {..<10} \<and>
    saturn_indices 10 Sphere \<inter> saturn_indices 10 Ring = {} \<and>
    \<bar>int (card (saturn_indices 10 Sphere)) - \<lfloor>real (10::nat) * 0.6\<rfloor>\<bar> \<le> 1 \<and>
    \<bar>int (card (saturn_indices 10 Ring)) - \<lfloor>real (10::nat) * 0.4\<rfloor>\<bar> \<le> 1 \<and>
    buddha_indices 10 HeadTorso \<union> buddha_indices 10 CrossedLegs \<union>
      buddha_indices 10 Aura = {..<10} \<and>
    buddha_indices 10 HeadTorso \<inter> buddha_indices 10 CrossedLegs = {} \<and>
    buddha_indices 10 HeadTorso \<inter> buddha_indices 10 Aura = {} \<and>
    buddha_indices 10 CrossedLegs \<inter> buddha_indices 10 Aura = {} \<and>
    \<bar>int (card (buddha_indices 10 HeadTorso)) - \<lfloor>real (10::nat) * 0.3\<rfloor>\<bar> \<le> 1 \<and>
    \<bar>int (card (buddha_indices 10 CrossedLegs)) - \<lfloor>real (10::nat) * 0.4\<rfloor>\<bar> \<le> 1 \<and>
    \<bar>int (card (buddha_indices 10 Aura)) - \<lfloor>real (10::nat) * 0.3\<rfloor>\<bar> \<le> 1)"
proof -
  have h: "(0::nat) < 10" and h5: "(5::nat) < 10" by simp_all
  have rs: "saturn_route 10 5 = Sphere" by (simp add: saturn_route_def)
  have rb: "buddha_route 10 5 = CrossedLegs" by (simp add: buddha_route_def Let_def)
  note t = segment_partition [OF h, where i = 5 and rnd = "\<lambda>k. 1 / 2"]
  note tie = mp [OF conjunct1 [OF t] h5]
  note parts = conjunct2 [OF t]
  show ?thesis
    by (rule conjI [OF h conjI [OF h5 conjI [OF tie conjI [OF rs conjI [OF rb parts]]]]])
qed

section \<open>Unrecognised templates\<close>

text \<open>
  C8. For a template string that is none of the five recognised ones, the generator
  returns a sequence of length \<open>3 * count\<close> whose every coordinate is zero. The generator
  is a total function: no input makes it fail.
\<close>

theorem unknown_template_zero:
  "type \<notin> {''HEART'', ''FLOWER'', ''SATURN'', ''BUDDHA'', ''FIREWORKS''} \<Longrightarrow>
   generatePositions type count rnd = replicate (3 * count) 0 \<and>
   length (generatePositions type count rnd) = 3 * count"
  by (simp add: generatePositions_def generate_loop_unknown mult.commute)

theorem unknown_template_zero_witness:
  "''CUBE'' \<notin> {''HEART'', ''FLOWER'', ''SATURN'', ''BUDDHA'', ''FIREWORKS''} \<and>
   generatePositions ''CUBE'' 2 (\<lambda>k. 1 / 2) = [0, 0, 0, 0, 0, 0]"
  using unknown_template_zero [of "''CUBE''" 2 "\<lambda>k. 1 / 2"]
  by (simp add: numeral_eq_Suc)

section \<open>What a step changes\<close>

text \<open>
  C9, as the code has it. The callback leaves the target buffer and the gesture state as
  they are. While the rendered object is not mounted it changes nothing. Otherwise the
  rendered object after the step is the one before it with the element values of the live
  buffer replaced (the length of the buffer stays the same), the \<open>needsUpdate\<close> flag of the
  position attribute set, the three scale components set and the \<open>y\<close> and \<open>z\<close> rotation
  angles increased; nothing else is modified. The callback returns no value: the model
  returns the state only.
\<close>

theorem step_frame:
  "targetPositions (useFrame_callback count time c) = targetPositions c \<and>
   gesture (useFrame_callback count time c) = gesture c \<and>
   (pointsRef c = None \<longrightarrow> useFrame_callback count time c = c) \<and>
   (pointsRef c = Some pts \<longrightarrow>
      (\<exists>L. length L = length (positions pts) \<and>
           pointsRef (useFrame_callback count time c) =
             Some (pts\<lparr>positions := L, needsUpdate := True,
                  scale_x := 1 + expansion (gesture c) * 2.5,
                  scale_y := 1 + expansion (gesture c) * 2.5,
                  scale_z := 1 + expansion (gesture c) * 2.5,
                  rotation_y := rotation_y pts + (0.002 + rotation (gesture c) * 0.05),
                  rotation_z := rotation_z pts + 0.001\<rparr>)))"
proof (intro conjI impI)
  show "targetPositions (useFrame_callback count time c) = targetPositions c"
    by (simp add: useFrame_callback_def split: option.split)
  show "gesture (useFrame_callback count time c) = gesture c"
    by (simp add: useFrame_callback_def split: option.split)
  show "useFrame_callback count time c = c" if "pointsRef c = None"
    using that by (simp add: useFrame_callback_def)
  show "\<exists>L. length L = length (positions pts) \<and>
           pointsRef (useFrame_callback count time c) =
             Some (pts\<lparr>positions := L, needsUpdate := True,
                  scale_x := 1 + expansion (gesture c) * 2.5,
                  scale_y := 1 + expansion (gesture c) * 2.5,
                  scale_z := 1 + expansion (gesture c) * 2.5,
                  rotation_y := rotation_y pts + (0.002 + rotation (gesture c) * 0.05),
                  rotation_z := rotation_z pts + 0.001\<rparr>)"
    if "pointsRef c = Some pts"
  proof (intro exI conjI)
    show "length (positions (step count (targetPositions c) (gesture c) time pts)) =
        length (positions pts)"
      by (rule step_length)
    show "pointsRef (useFrame_callback count time c) =
             Some (pts\<lparr>positions := positions (step count (targetPositions c) (gesture c) time pts),
                  needsUpdate := True,
                  scale_x := 1 + expansion (gesture c) * 2.5,
                  scale_y := 1 + expansion (gesture c) * 2.5,
                  scale_z := 1 + expansion (gesture c) * 2.5,
                  rotation_y := rotation_y pts + (0.002 + rotation (gesture c) * 0.05),
                  rotation_z := rotation_z pts + 0.001\<rparr>)"
      using that step_fields [of count "targetPositions c" "gesture c" time pts]
      by (simp add: useFrame_callback_def)
  qed
qed

theorem step_frame_witness:
  "pointsRef \<lparr>pointsRef = None, targetPositions = [10, 0, 0], gesture = initial_gesture\<rparr> = None \<and>
   useFrame_callback 1 0 \<lparr>pointsRef = None, targetPositions = [10, 0, 0], gesture = initial_gesture\<rparr> =
     \<lparr>pointsRef = None, targetPositions = [10, 0, 0], gesture = initial_gesture\<rparr> \<and>
   pointsRef \<lparr>pointsRef = Some \<lparr>positions = [0, 0, 0], needsUpdate = False, scale_x = 1,
       scale_y = 1, scale_z = 1, rotation_x = 0, rotation_y = 0, rotation_z = 0\<rparr>,
     targetPositions = [10, 0, 0], gesture = initial_gesture\<rparr> =
     Some \<lparr>positions = [0, 0, 0], needsUpdate = False, scale_x = 1,
       scale_y = 1, scale_z = 1, rotation_x = 0, rotation_y = 0, rotation_z = 0\<rparr> \<and>
   (\<exists>L. length L = 3 \<and>
      pointsRef (useFrame_callback 1 0
        \<lparr>pointsRef = Some \<lparr>positions = [0, 0, 0], needsUpdate = False, scale_x = 1,
           scale_y = 1, scale_z = 1, rotation_x = 0, rotation_y = 0, rotation_z = 0\<rparr>,
         targetPositions = [10, 0, 0], gesture = initial_gesture\<rparr>) =
      Some \<lparr>positions = L, needsUpdate = True, scale_x = 1, scale_y = 1, scale_z = 1,
        rotation_x = 0, rotation_y = 0.002, rotation_z = 0.001\<rparr>)"
proof -
  let ?p = "\<lparr>positions = [0, 0, 0], needsUpdate = False, scale_x = 1,
       scale_y = 1, scale_z = 1, rotation_x = 0, rotation_y = 0, rotation_z = 0\<rparr>"
  let ?n = "\<lparr>pointsRef = None, targetPositions = [10, 0, 0], gesture = initial_gesture\<rparr>"
  let ?c = "\<lparr>pointsRef = Some ?p, targetPositions = [10, 0, 0], gesture = initial_gesture\<rparr>"
  have hn: "pointsRef ?n = None" and hc: "pointsRef ?c = Some ?p" by simp_all
  note tn = step_frame [where c = ?n and count = 1 and time = 0]
  note tc = step_frame [where c = ?c and count = 1 and time = 0 and pts = ?p]
  from tn hn have a: "useFrame_callback 1 0 ?n = ?n" by blast
  from tc hc have "\<exists>L. length L = length (positions ?p) \<and>
           pointsRef (useFrame_callback 1 0 ?c) =
             Some (?p\<lparr>positions := L, needsUpdate := True,
                  scale_x := 1 + expansion (gesture ?c) * 2.5,
                  scale_y := 1 + expansion (gesture ?c) * 2.5,
                  scale_z := 1 + expansion (gesture ?c) * 2.5,
                  rotation_y := rotation_y ?p + (0.002 + rotation (gesture ?c) * 0.05),
                  rotation_z := rotation_z ?p + 0.001\<rparr>)"
    by blast
  then have b: "\<exists>L. length L = 3 \<and> pointsRef (useFrame_callback 1 0 ?c) =
      Some \<lparr>positions = L, needsUpdate = True, scale_x = 1, scale_y = 1, scale_z = 1,
        rotation_x = 0, rotation_y = 0.002, rotation_z = 0.001\<rparr>"
    by (simp add: initial_gesture_def numeral_3_eq_3)
  show ?thesis using hn a hc b by (intro conjI)
qed

text \<open>
  The live buffer, the scale and the rotation are not the only state a step modifies: it
  also sets the \<open>needsUpdate\<close> flag of the position attribute (line 62), here from false to
  true.
\<close>

theorem step_sets_needsUpdate_counterexample:
  "needsUpdate \<lparr>positions = [0, 0, 0], needsUpdate = False, scale_x = 1, scale_y = 1,
      scale_z = 1, rotation_x = 0, rotation_y = 0, rotation_z = 0\<rparr> = False \<and>
   needsUpdate (step 1 [10, 0, 0] \<lparr>expansion = 0, rotation = 0, isDetected = False\<rparr> 0
     \<lparr>positions = [0, 0, 0], needsUpdate = False, scale_x = 1, scale_y = 1,
      scale_z = 1, rotation_x = 0, rotation_y = 0, rotation_z = 0\<rparr>) = True"
  by (simp add: step_def setScalar_def Let_def)

section \<open>The gesture before the first report\<close>

text \<open>
  C10. The gesture state starts as \<open>{expansion: 0, rotation: 0, isDetected: false}\<close>. As long
  as no gesture report has arrived (frames and template selections only), the gesture
  state read by the step is still that value, every frame sets the uniform scale to 1, and
  the rotation angles have grown by 0.002 and 0.001 per frame.
\<close>

theorem initial_gesture_frames:
  assumes "filter is_report es = []" and "pointsRef c = Some pts"
    and "gesture c = initial_gesture"
  shows
    "initial_gesture = \<lparr>expansion = 0, rotation = 0, isDetected = False\<rparr> \<and>
     gesture (run count es c) = \<lparr>expansion = 0, rotation = 0, isDetected = False\<rparr> \<and>
     (\<exists>pts'. pointsRef (run count es c) = Some pts' \<and>
        rotation_y pts' = rotation_y pts + real (length (filter is_frame es)) * 0.002 \<and>
        rotation_z pts' = rotation_z pts + real (length (filter is_frame es)) * 0.001 \<and>
        (filter is_frame es \<noteq> [] \<longrightarrow> scale_x pts' = 1 \<and> scale_y pts' = 1 \<and> scale_z pts' = 1))"
proof -
  have "\<forall>e \<in> set es. \<not> is_report e"
    using assms(1) by (simp add: filter_empty_conv)
  from run_without_reports [OF this assms(2,3), of count]
  obtain pts' where g: "gesture (run count es c) = initial_gesture"
    and r: "pointsRef (run count es c) = Some pts'"
      "rotation_y pts' = rotation_y pts + real (length (filter is_frame es)) * 0.002"
      "rotation_z pts' = rotation_z pts + real (length (filter is_frame es)) * 0.001"
    and s: "scale_x pts' = (if filter is_frame es = [] then scale_x pts else 1)"
      "scale_y pts' = (if filter is_frame es = [] then scale_y pts else 1)"
      "scale_z pts' = (if filter is_frame es = [] then scale_z pts else 1)"
    by blast
  have "filter is_frame es \<noteq> [] \<longrightarrow> scale_x pts' = 1 \<and> scale_y pts' = 1 \<and> scale_z pts' = 1"
    using s by simp
  with g r show ?thesis by (auto simp: initial_gesture_def)
qed

theorem initial_gesture_frames_witness:
  "filter is_report [Frame 0, SelectTemplate ''HEART'' (\<lambda>k. 1 / 2), Frame 1] = [] \<and>
   pointsRef \<lparr>pointsRef = Some \<lparr>positions = [0, 0, 0], needsUpdate = False, scale_x = 2,
       scale_y = 2, scale_z = 2, rotation_x = 0, rotation_y = 0, rotation_z = 0\<rparr>,
     targetPositions = [10, 0, 0], gesture = initial_gesture\<rparr> =
     Some \<lparr>positions = [0, 0, 0], needsUpdate = False, scale_x = 2,
       scale_y = 2, scale_z = 2, rotation_x = 0, rotation_y = 0, rotation_z = 0\<rparr> \<and>
   gesture \<lparr>pointsRef = Some \<lparr>positions = [0, 0, 0], needsUpdate = False, scale_x = 2,
       scale_y = 2, scale_z = 2, rotation_x = 0, rotation_y = 0, rotation_z = 0\<rparr>,
     targetPositions = [10, 0, 0], gesture = initial_gesture\<rparr> = initial_gesture \<and>
   (\<exists>pts'. pointsRef (run 1 [Frame 0, SelectTemplate ''HEART'' (\<lambda>k. 1 / 2), Frame 1]
       \<lparr>pointsRef = Some \<lparr>positions = [0, 0, 0], needsUpdate = False, scale_x = 2,
          scale_y = 2, scale_z = 2, rotation_x = 0, rotation_y = 0, rotation_z = 0\<rparr>,
        targetPositions = [10, 0, 0], gesture = initial_gesture\<rparr>) = Some pts' \<and>
      rotation_y pts' = 0.004 \<and> rotation_z pts' = 0.002 \<and>
      scale_x pts' = 1 \<and> scale_y pts' = 1 \<and> scale_z pts' = 1)"
proof -
  let ?es = "[Frame 0, SelectTemplate ''HEART'' (\<lambda>k. 1 / 2), Frame 1]"
  let ?p = "\<lparr>positions = [0, 0, 0], needsUpdate = False, scale_x = 2,
       scale_y = 2, scale_z = 2, rotation_x = 0, rotation_y = 0, rotation_z = 0\<rparr>"
  let ?c = "\<lparr>pointsRef = Some ?p, targetPositions = [10, 0, 0], gesture = initial_gesture\<rparr>"
  have h1: "filter is_report ?es = []" by simp
  have h2: "pointsRef ?c = Some ?p" by simp
  have h3: "gesture ?c = initial_gesture" by simp
  from initial_gesture_frames [OF h1 h2 h3, of 1]
  obtain pts' where r: "pointsRef (run 1 ?es ?c) = Some pts'"
    and v: "rotation_y pts' = rotation_y ?p + real (length (filter is_frame ?es)) * 0.002"
      "rotation_z pts' = rotation_z ?p + real (length (filter is_frame ?es)) * 0.001"
      "filter is_frame ?es \<noteq> [] \<longrightarrow> scale_x pts' = 1 \<and> scale_y pts' = 1 \<and> scale_z pts' = 1"
    by blast
  from v have "rotation_y pts' = 0.004 \<and> rotation_z pts' = 0.002 \<and>
      scale_x pts' = 1 \<and> scale_y pts' = 1 \<and> scale_z pts' = 1"
    by simp
  with r have "\<exists>pts'. pointsRef (run 1 ?es ?c) = Some pts' \<and>
      rotation_y pts' = 0.004 \<and> rotation_z pts' = 0.002 \<and>
      scale_x pts' = 1 \<and> scale_y pts' = 1 \<and> scale_z pts' = 1"
    by blast
  with h1 h2 h3 show ?thesis by (intro conjI)
qed

end
